theory Spec2Isabelle
  imports Complex_Main
begin

section \<open>Python strings\<close>

text \<open>
  A Python \<open>str\<close> is modelled as a \<open>string\<close>: one \<open>char\<close> stands for one
  character, and the 256 values of \<open>char\<close> are the characters with code points 0 to
  255. On these, \<open>isspace\<close> is the whitespace class of \<open>str.strip\<close> and
  \<open>str.split\<close> (it has the next-line character \<open>0x85\<close> and the no-break space
  \<open>0xA0\<close>), and \<open>lower_char\<close> is \<open>str.lower\<close> (the letters \<open>A\<close> to \<open>Z\<close>
  and the capital letters \<open>0xC0\<close> to \<open>0xDE\<close>, the sign \<open>0xD7\<close> left out).
\<close>

definition isspace :: "char \<Rightarrow> bool" where
  "isspace c = (c \<in> set [CHR 0x09, CHR 0x0A, CHR 0x0B, CHR 0x0C, CHR 0x0D,
                          CHR 0x1C, CHR 0x1D, CHR 0x1E, CHR 0x1F, CHR '' '',
                          CHR 0x85, CHR 0xA0])"

definition upper_chars :: string where
  "upper_chars =
     ''ABCDEFGHIJKLMNOPQRSTUVWXYZ''
     @ [CHR 0xC0, CHR 0xC1, CHR 0xC2, CHR 0xC3, CHR 0xC4, CHR 0xC5, CHR 0xC6, CHR 0xC7,
        CHR 0xC8, CHR 0xC9, CHR 0xCA, CHR 0xCB, CHR 0xCC, CHR 0xCD, CHR 0xCE, CHR 0xCF,
        CHR 0xD0, CHR 0xD1, CHR 0xD2, CHR 0xD3, CHR 0xD4, CHR 0xD5, CHR 0xD6,
        CHR 0xD8, CHR 0xD9, CHR 0xDA, CHR 0xDB, CHR 0xDC, CHR 0xDD, CHR 0xDE]"

definition lower_chars :: string where
  "lower_chars =
     ''abcdefghijklmnopqrstuvwxyz''
     @ [CHR 0xE0, CHR 0xE1, CHR 0xE2, CHR 0xE3, CHR 0xE4, CHR 0xE5, CHR 0xE6, CHR 0xE7,
        CHR 0xE8, CHR 0xE9, CHR 0xEA, CHR 0xEB, CHR 0xEC, CHR 0xED, CHR 0xEE, CHR 0xEF,
        CHR 0xF0, CHR 0xF1, CHR 0xF2, CHR 0xF3, CHR 0xF4, CHR 0xF5, CHR 0xF6,
        CHR 0xF8, CHR 0xF9, CHR 0xFA, CHR 0xFB, CHR 0xFC, CHR 0xFD, CHR 0xFE]"

definition lower_char :: "char \<Rightarrow> char" where
  "lower_char c =
     (case map_of (zip upper_chars lower_chars) c of
        Some d \<Rightarrow> d
      | None \<Rightarrow> c)"

text \<open>\<open>s.lower()\<close>\<close>

definition lower :: "string \<Rightarrow> string" where
  "lower s = map lower_char s"

text \<open>\<open>s.strip()\<close>\<close>

definition strip :: "string \<Rightarrow> string" where
  "strip s = rev (dropWhile isspace (rev (dropWhile isspace s)))"

text \<open>\<open>s.split()\<close>: the maximal runs of characters that are not whitespace.\<close>

fun split_ws_acc :: "string \<Rightarrow> string \<Rightarrow> string list" where
  "split_ws_acc cur [] = (if cur = [] then [] else [cur])"
| "split_ws_acc cur (c # cs) =
     (if isspace c then (if cur = [] then split_ws_acc [] cs else cur # split_ws_acc [] cs)
      else split_ws_acc (cur @ [c]) cs)"

definition split_ws :: "string \<Rightarrow> string list" where
  "split_ws s = split_ws_acc [] s"

text \<open>\<open>sep.join(xs)\<close>\<close>

fun join :: "string \<Rightarrow> string list \<Rightarrow> string" where
  "join sep [] = []"
| "join sep [x] = x"
| "join sep (x # y # ys) = x @ sep @ join sep (y # ys)"

text \<open>\<open>s.split(c)\<close> for a single character \<open>c\<close>: never the empty list.\<close>

fun split_on :: "char \<Rightarrow> string \<Rightarrow> string list" where
  "split_on c [] = [[]]"
| "split_on c (x # xs) =
     (if x = c then [] # split_on c xs
      else (case split_on c xs of
              w # ws \<Rightarrow> (x # w) # ws
            | [] \<Rightarrow> [[x]]))"

text \<open>\<open>s.startswith(p)\<close> and \<open>s.startswith((p1, p2, ...))\<close>\<close>

definition startswith :: "string \<Rightarrow> string \<Rightarrow> bool" where
  "startswith s p = (take (length p) s = p)"

definition startswith_any :: "string \<Rightarrow> string list \<Rightarrow> bool" where
  "startswith_any s ps = list_ex (startswith s) ps"

text \<open>\<open>sub in s\<close>\<close>

fun str_in :: "string \<Rightarrow> string \<Rightarrow> bool" where
  "str_in sub [] = (sub = [])"
| "str_in sub (c # cs) = (startswith (c # cs) sub \<or> str_in sub cs)"

text \<open>\<open>s.replace('www.', '')\<close>: every occurrence, scanning from the left.\<close>

fun replace_www :: "string \<Rightarrow> string" where
  "replace_www (a # b # c # d # rest) =
     (if [a, b, c, d] = ''www.'' then replace_www rest
      else a # replace_www (b # c # d # rest))"
| "replace_www s = s"

text \<open>The truth value of an optional string: \<open>None\<close> and \<open>''\<close> are falsy.\<close>

fun truthy :: "string option \<Rightarrow> bool" where
  "truthy None = False"
| "truthy (Some s) = (s \<noteq> [])"

section \<open>The parsed document\<close>

text \<open>
  A BeautifulSoup tree. \<open>NavigableString\<close> is a string of exactly that class, a
  plain text node; \<open>OtherString\<close> is a string of one of its subclasses, named by a
  \<open>string_class\<close> (\<open>Comment\<close> stands for a comment, a declaration, a doctype and
  a processing instruction, which \<open>get_text\<close> treats alike);
  \<open>Tag name attrs contents\<close> is an element. The soup object itself is the
  outermost \<open>Tag\<close>.
\<close>

datatype string_class =
    CData
  | Comment
  | Script
  | Stylesheet
  | TemplateString
  | RubyTextString
  | RubyParenthesisString

datatype node =
    NavigableString string
  | OtherString string_class string
  | Tag string "(string \<times> string) list" "node list"

text \<open>\<open>tag.descendants\<close>: document order, the tag itself left out.\<close>

fun descendants :: "node \<Rightarrow> node list" where
  "descendants (Tag n a cs) = concat (map (\<lambda>c. c # descendants c) cs)"
| "descendants (NavigableString s) = []"
| "descendants (OtherString k s) = []"

text \<open>\<open>tag.get(key, default)\<close>\<close>

fun tag_get :: "node \<Rightarrow> string \<Rightarrow> string \<Rightarrow> string" where
  "tag_get (Tag n a cs) k d = (case map_of a k of Some v \<Rightarrow> v | None \<Rightarrow> d)"
| "tag_get (NavigableString s) k d = d"
| "tag_get (OtherString c s) k d = d"

fun is_tag_named :: "string \<Rightarrow> node \<Rightarrow> bool" where
  "is_tag_named nm (Tag n a cs) = (n = nm)"
| "is_tag_named nm (NavigableString s) = False"
| "is_tag_named nm (OtherString k s) = False"

fun has_attr :: "string \<Rightarrow> node \<Rightarrow> bool" where
  "has_attr k (Tag n a cs) = (map_of a k \<noteq> None)"
| "has_attr k (NavigableString s) = False"
| "has_attr k (OtherString c s) = False"

text \<open>\<open>soup.find_all('a', href=True)\<close>\<close>

definition find_all_a_href :: "node \<Rightarrow> node list" where
  "find_all_a_href doc =
     filter (\<lambda>n. is_tag_named ''a'' n \<and> has_attr ''href'' n) (descendants doc)"

text \<open>\<open>soup.find_all(string=True)\<close>: every string of the tree, of either kind.\<close>

fun string_of :: "node \<Rightarrow> string list" where
  "string_of (NavigableString s) = [s]"
| "string_of (OtherString k s) = [s]"
| "string_of (Tag n a cs) = []"

definition find_all_string :: "node \<Rightarrow> string list" where
  "find_all_string doc = concat (map string_of (descendants doc))"

text \<open>
  The strings \<open>get_text\<close> joins. A tag has its interesting string types: the one
  class the tree builder keeps for a \<open>script\<close>, \<open>style\<close>, \<open>template\<close>, \<open>rt\<close> or
  \<open>rp\<close> element (\<open>string_containers\<close>), and \<open>NavigableString\<close> and \<open>CData\<close> for
  any other tag. \<open>get_text\<close> of a tag joins the strings below it whose class is
  exactly one of these: for a \<open>script\<close> element its own script, and below any other
  tag no script, no stylesheet and no comment.
\<close>

definition string_containers :: "string \<Rightarrow> string_class option" where
  "string_containers nm =
     map_of [(''rt'', RubyTextString), (''rp'', RubyParenthesisString),
             (''style'', Stylesheet), (''script'', Script),
             (''template'', TemplateString)] nm"

fun interesting_string_of :: "string \<Rightarrow> node \<Rightarrow> string list" where
  "interesting_string_of nm (NavigableString s) =
     (case string_containers nm of None \<Rightarrow> [s] | Some k \<Rightarrow> [])"
| "interesting_string_of nm (OtherString c s) =
     (case string_containers nm of
        None \<Rightarrow> (if c = CData then [s] else [])
      | Some k \<Rightarrow> (if c = k then [s] else []))"
| "interesting_string_of nm (Tag n a cs) = []"

fun all_strings :: "node \<Rightarrow> string list" where
  "all_strings (Tag nm a cs) =
     concat (map (interesting_string_of nm) (descendants (Tag nm a cs)))"
| "all_strings (NavigableString s) = [s]"
| "all_strings (OtherString k s) = [s]"

text \<open>\<open>tag.get_text()\<close>\<close>

definition get_text :: "node \<Rightarrow> string" where
  "get_text t = concat (all_strings t)"

text \<open>\<open>tag.get_text(separator=' ', strip=True)\<close>: each string stripped, the empty
  ones dropped, the rest joined by one space.\<close>

definition get_text_sep_strip :: "node \<Rightarrow> string" where
  "get_text_sep_strip t =
     join '' '' (filter (\<lambda>s. s \<noteq> []) (map strip (all_strings t)))"

text \<open>\<open>tag.string\<close>\<close>

fun dot_string :: "node \<Rightarrow> string option" where
  "dot_string (NavigableString s) = Some s"
| "dot_string (OtherString k s) = Some s"
| "dot_string (Tag n a [c]) = dot_string c"
| "dot_string (Tag n a cs) = None"

text \<open>
  The CSS selectors \<open>scraper.py\<close> uses: a tag name (\<open>main\<close>), a tag name with an
  attribute value (\<open>section[role="main"]\<close>), a class (\<open>.content\<close>) and an id
  (\<open>#content\<close>).
\<close>

datatype selector =
    ByTag string
  | ByTagAttr string string string
  | ByClass string
  | ById string

fun matches :: "selector \<Rightarrow> node \<Rightarrow> bool" where
  "matches (ByTag nm) (Tag n a cs) = (n = nm)"
| "matches (ByTagAttr nm k v) (Tag n a cs) = (n = nm \<and> map_of a k = Some v)"
| "matches (ByClass c) (Tag n a cs) =
     (case map_of a ''class'' of None \<Rightarrow> False | Some v \<Rightarrow> c \<in> set (split_ws v))"
| "matches (ById i) (Tag n a cs) = (map_of a ''id'' = Some i)"
| "matches sel (NavigableString s) = False"
| "matches sel (OtherString k s) = False"

text \<open>\<open>tag.select(sel)\<close>, \<open>tag.select_one(sel)\<close> and \<open>tag.find(name)\<close>\<close>

definition select :: "selector \<Rightarrow> node \<Rightarrow> node list" where
  "select sel doc = filter (matches sel) (descendants doc)"

definition select_one :: "selector \<Rightarrow> node \<Rightarrow> node option" where
  "select_one sel doc = (case select sel doc of [] \<Rightarrow> None | x # _ \<Rightarrow> Some x)"

definition find_tag :: "string \<Rightarrow> node \<Rightarrow> node option" where
  "find_tag nm doc = select_one (ByTag nm) doc"

text \<open>\<open>for tag in t.select(sel): tag.decompose()\<close>: every descendant that matches
  is taken out of the tree, with all below it.\<close>

fun decompose_all :: "selector \<Rightarrow> node \<Rightarrow> node" where
  "decompose_all sel (Tag n a cs) =
     Tag n a (map (decompose_all sel) (filter (\<lambda>c. \<not> matches sel c) cs))"
| "decompose_all sel (NavigableString s) = NavigableString s"
| "decompose_all sel (OtherString k s) = OtherString k s"

text \<open>
  Soup objects are mutable and passed by reference: the store maps a reference to the
  tree it holds now. A function that may mutate a tree takes the store and returns it.
\<close>

type_synonym store = "node list"

definition alloc :: "store \<Rightarrow> node \<Rightarrow> nat \<times> store" where
  "alloc h t = (length h, h @ [t])"

section \<open>Link classification\<close>

text \<open>
  \<open>urllib.parse\<close> is a library, not code of this repository: its two functions are
  parameters of the model. \<open>None\<close> is a raised exception (\<open>ValueError\<close> on a
  malformed URL); \<open>urlparse\<close> gives the \<open>netloc\<close> and the \<open>path\<close> of the result,
  the two fields the code reads.
\<close>

record urllib =
  urljoin :: "string \<Rightarrow> string \<Rightarrow> string option"
  urlparse :: "string \<Rightarrow> (string \<times> string) option"

definition SOCIAL_DOMAINS :: "string list" where
  "SOCIAL_DOMAINS =
     [''linkedin.com'', ''facebook.com'', ''twitter.com'', ''instagram.com'', ''youtube.com'']"

record link_set =
  about :: "string option"
  contact :: "string option"
  social :: "string set"

definition no_links :: link_set where
  "no_links = \<lparr>about = None, contact = None, social = {}\<rparr>"

text \<open>The test of line 72: the anchors the loop skips at once.\<close>

definition skipped_href :: "string \<Rightarrow> bool" where
  "skipped_href href =
     (href = [] \<or> startswith_any href [''javascript:'', ''#'', ''tel:'', ''mailto:''])"

definition is_about_link :: "string \<Rightarrow> string \<Rightarrow> bool" where
  "is_about_link link_text href_lower =
     ((str_in ''about'' link_text \<or> str_in ''/about'' href_lower
         \<or> str_in ''company'' link_text \<or> str_in ''who we are'' link_text
         \<or> str_in ''who-we-are'' href_lower)
      \<and> \<not> list_ex (\<lambda>kw. str_in kw href_lower)
            [''blog'', ''news'', ''press'', ''careers'', ''jobs'', ''events''])"

definition is_contact_link :: "string \<Rightarrow> string \<Rightarrow> bool" where
  "is_contact_link link_text href_lower =
     (str_in ''contact'' link_text \<or> str_in ''/contact'' href_lower
        \<or> str_in ''get-in-touch'' href_lower \<or> str_in ''get in touch'' link_text
        \<or> str_in ''support'' link_text)"

text \<open>Lines 90 to 98, from the \<open>netloc\<close> and the \<open>path\<close> of the resolved URL.\<close>

definition is_social :: "string \<Rightarrow> string \<Rightarrow> bool" where
  "is_social netloc path =
     (let domain_of_link = replace_www netloc;
          path_str = lower path
      in if list_ex (\<lambda>social_domain. str_in social_domain domain_of_link) SOCIAL_DOMAINS
         then
           if \<not> list_ex (\<lambda>word. str_in word path_str)
                  [''/share'', ''/intent'', ''/addtoany'', ''/login'', ''/post'', ''/status'',
                   ''/jobs'', ''/careers'', ''/legal'', ''/privacy'']
           then
             (let path_parts = filter (\<lambda>p. p \<noteq> []) (split_on CHR ''/'' path_str)
              in length path_parts \<le> 2
                 \<or> list_ex (\<lambda>p. p \<in> set [''company'', ''in'', ''user'', ''channel''])
                      path_parts)
           else False
         else False)"

text \<open>
  The body of the loop over the anchors. An exception raised while one anchor is
  processed is caught and the anchor is left: \<open>urljoin\<close> is the one call that can
  raise before the slots are written, \<open>urlparse\<close> the one inside the inner \<open>try\<close>.
\<close>

definition classify_link :: "urllib \<Rightarrow> string \<Rightarrow> link_set \<Rightarrow> node \<Rightarrow> link_set" where
  "classify_link lib base_url links link =
     (let link_text = strip (lower (get_text link));
          href = tag_get link ''href'' []
      in if skipped_href href then links
         else
           (case urljoin lib base_url href of
              None \<Rightarrow> links
            | Some full_url \<Rightarrow>
                (let href_lower = lower href;
                     links1 =
                       (if \<not> truthy (about links) \<and> is_about_link link_text href_lower
                        then links\<lparr>about := Some full_url\<rparr> else links);
                     links2 =
                       (if \<not> truthy (contact links1) \<and> is_contact_link link_text href_lower
                        then links1\<lparr>contact := Some full_url\<rparr> else links1)
                 in case urlparse lib full_url of
                      None \<Rightarrow> links2
                    | Some (netloc, path) \<Rightarrow>
                        if is_social netloc path \<and> full_url \<notin> social links2
                        then links2\<lparr>social := insert full_url (social links2)\<rparr>
                        else links2)))"

definition find_relevant_links :: "urllib \<Rightarrow> store \<Rightarrow> nat option \<Rightarrow> string \<Rightarrow> link_set" where
  "find_relevant_links lib h soup base_url =
     (case soup of
        None \<Rightarrow> no_links
      | Some r \<Rightarrow> foldl (classify_link lib base_url) no_links (find_all_a_href (h ! r)))"

section \<open>Email extraction\<close>

text \<open>
  \<open>EMAIL_REGEX\<close> is \<open>[a-zA-Z0-9._%+-]+@[a-zA-Z0-9.-]+\.[a-zA-Z]{2,}\<close>: three
  character classes, and the language of the whole pattern.
\<close>

definition alpha :: "char \<Rightarrow> bool" where
  "alpha c = (c \<in> set ''abcdefghijklmnopqrstuvwxyzABCDEFGHIJKLMNOPQRSTUVWXYZ'')"

definition local_char :: "char \<Rightarrow> bool" where
  "local_char c = (alpha c \<or> c \<in> set ''0123456789._%+-'')"

definition domain_char :: "char \<Rightarrow> bool" where
  "domain_char c = (alpha c \<or> c \<in> set ''0123456789.-'')"

definition email_grammar :: "string \<Rightarrow> bool" where
  "email_grammar s =
     (\<exists>l d a. s = l @ ''@'' @ d @ ''.'' @ a
        \<and> l \<noteq> [] \<and> list_all local_char l
        \<and> d \<noteq> [] \<and> list_all domain_char d
        \<and> 2 \<le> length a \<and> list_all alpha a)"

text \<open>
  \<open>re.fullmatch(EMAIL_REGEX, s)\<close>, as a computation: the local part is the run of
  local characters before the \<open>@\<close>, the suffix the run of letters at the end, and
  the dot before it closes the domain.
\<close>

definition re_fullmatch :: "string \<Rightarrow> bool" where
  "re_fullmatch s =
     (let l = takeWhile local_char s
      in l \<noteq> [] \<and>
         (case drop (length l) s of
            [] \<Rightarrow> False
          | c # u \<Rightarrow>
              c = CHR ''@'' \<and>
              (let a = rev (takeWhile alpha (rev u));
                   d = take (length u - length a) u
               in 2 \<le> length a \<and> d \<noteq> [] \<and> last d = CHR ''.''
                  \<and> butlast d \<noteq> [] \<and> list_all domain_char (butlast d))))"

text \<open>
  One match attempt of the regex engine at the start of \<open>s\<close>. The local part is
  greedy and no shorter run is followed by \<open>@\<close>; the domain is greedy and gives
  characters back, one at a time, until a dot and two letters or more follow it; the
  suffix is greedy. The result is the length of the match.
\<close>

fun domain_backtrack :: "string \<Rightarrow> nat \<Rightarrow> (nat \<times> nat) option" where
  "domain_backtrack t 0 = None"
| "domain_backtrack t (Suc k) =
     (let n3 = length (takeWhile alpha (drop (Suc (Suc k)) t))
      in if Suc k < length t \<and> t ! Suc k = CHR ''.'' \<and> 2 \<le> n3 then Some (Suc k, n3)
         else domain_backtrack t k)"

definition email_match_len :: "string \<Rightarrow> nat option" where
  "email_match_len s =
     (let n1 = length (takeWhile local_char s)
      in if n1 = 0 then None
         else
           (case drop n1 s of
              [] \<Rightarrow> None
            | c # t \<Rightarrow>
                if c \<noteq> CHR ''@'' then None
                else
                  (case domain_backtrack t (length (takeWhile domain_char t)) of
                     None \<Rightarrow> None
                   | Some (m, n3) \<Rightarrow> Some (n1 + 1 + m + 1 + n3))))"

text \<open>\<open>re.findall(EMAIL_REGEX, s)\<close>: the matches from left to right, none overlapping;
  the scan goes on one character further where no match starts.\<close>

function re_findall :: "string \<Rightarrow> string list" where
  "re_findall s =
     (if s = [] then []
      else
        (case email_match_len s of
           Some n \<Rightarrow> take n s # re_findall (drop (max 1 n) s)
         | None \<Rightarrow> re_findall (tl s)))"
  by pat_completeness auto
termination
  by (relation "measure length") auto

declare re_findall.simps [simp del]

definition add_mailto :: "string set \<Rightarrow> node \<Rightarrow> string set" where
  "add_mailto emails_found link =
     (let href = tag_get link ''href'' []
      in if startswith href ''mailto:''
         then
           (let email_part = (case split_on CHR ''?'' (drop 7 href) of p # _ \<Rightarrow> p | [] \<Rightarrow> [])
            in if re_fullmatch email_part then insert email_part emails_found
               else emails_found)
         else emails_found)"

definition extract_emails :: "store \<Rightarrow> nat option \<Rightarrow> string set" where
  "extract_emails h soup =
     (case soup of
        None \<Rightarrow> {}
      | Some r \<Rightarrow>
          (let text_nodes = find_all_string (h ! r);
               emails_found = foldl (\<lambda>acc t. acc \<union> set (re_findall t)) {} text_nodes
           in foldl add_mailto emails_found (find_all_a_href (h ! r))))"

section \<open>Content extraction\<close>

definition selectors :: "selector list" where
  "selectors =
     [ByTag ''main'', ByTag ''article'', ByTagAttr ''section'' ''role'' ''main'',
      ByTagAttr ''div'' ''role'' ''main'', ByClass ''main-content'', ById ''main-content'',
      ByClass ''content'', ById ''content'']"

definition noise_selectors :: "selector list" where
  "noise_selectors =
     [ByTag ''nav'', ByTag ''header'', ByTag ''footer'', ByTag ''script'', ByTag ''style'',
      ByTag ''aside'', ByTag ''form'', ByTag ''noscript'', ByTag ''iframe'', ByTag ''button'',
      ByClass ''sidebar'', ById ''sidebar'']"

text \<open>The loop of lines 136 to 143: it stops at the first selector whose region has
  more than 200 characters of text.\<close>

fun selector_tier :: "node \<Rightarrow> selector list \<Rightarrow> string option" where
  "selector_tier doc [] = None"
| "selector_tier doc (sel # rest) =
     (case select_one sel doc of
        None \<Rightarrow> selector_tier doc rest
      | Some content_area \<Rightarrow>
          (let tag_text = get_text_sep_strip content_area
           in if length tag_text > 200 then Some tag_text else selector_tier doc rest))"

text \<open>
  Lines 145 to 151. \<open>BeautifulSoup(str(body), 'lxml').find('body')\<close> builds a new
  tree from the serialised body: a new reference in the store, holding a tree equal to
  the body (the body is a tree the parser has built, and parsing what it serialises to
  gives it back). The \<open>decompose\<close> calls write to that reference.
\<close>

definition decompose_noise :: "nat \<Rightarrow> store \<Rightarrow> selector \<Rightarrow> store" where
  "decompose_noise body_copy h tag_name = h[body_copy := decompose_all tag_name (h ! body_copy)]"

definition fallback_tier :: "store \<Rightarrow> nat \<Rightarrow> string option \<times> store" where
  "fallback_tier h r =
     (case find_tag ''body'' (h ! r) of
        None \<Rightarrow> (None, h)
      | Some body \<Rightarrow>
          (let (body_copy, h1) = alloc h body;
               h2 = foldl (decompose_noise body_copy) h1 noise_selectors
           in (Some (get_text_sep_strip (h2 ! body_copy)), h2)))"

text \<open>\<open>' '.join(text.split())\<close>\<close>

definition collapse_whitespace :: "string \<Rightarrow> string" where
  "collapse_whitespace t = join '' '' (split_ws t)"

definition extract_relevant_text :: "store \<Rightarrow> nat option \<Rightarrow> string option \<times> store" where
  "extract_relevant_text h soup =
     (case soup of
        None \<Rightarrow> (None, h)
      | Some r \<Rightarrow>
          (let text1 = selector_tier (h ! r) selectors;
               (text2, h') = (if \<not> truthy text1 then fallback_tier h r else (text1, h))
           in case text2 of
                None \<Rightarrow> (None, h')
              | Some t \<Rightarrow> if t \<noteq> [] then (Some (collapse_whitespace t), h') else (None, h')))"

section \<open>The summarizer\<close>

text \<open>
  The call of the generative model is outside the repository: it is a parameter, with
  the three outcomes the code tells apart (a response with parts, a response without,
  an exception with its message).
\<close>

datatype gen_result = Parts string | NoParts | GenError string

definition summary_prompt :: "string \<Rightarrow> string" where
  "summary_prompt t =
     ''Concisely summarize the following text about a company in 1-3 short sentences, focusing on its core business or purpose:''
     @ [CHR 0x0A, CHR 0x0A] @ ''TEXT:'' @ [CHR 0x0A] @ take 4000 t
     @ [CHR 0x0A, CHR 0x0A] @ ''SUMMARY:''"

definition summarize_text ::
  "string option \<Rightarrow> (string \<Rightarrow> gen_result) \<Rightarrow> string \<Rightarrow> string option" where
  "summarize_text api_key generate text_to_summarize =
     (if \<not> truthy api_key then Some ''API Key Error: GOOGLE_API_KEY not set.''
      else if text_to_summarize = [] \<or> length text_to_summarize < 75 then None
      else
        (case generate (summary_prompt text_to_summarize) of
           Parts t \<Rightarrow> Some (strip t)
         | NoParts \<Rightarrow> None
         | GenError e \<Rightarrow> Some (''Error: '' @ e)))"

section \<open>The orchestrator\<close>

text \<open>
  What the orchestrator reads from outside: the network, the HTML parser, the URL
  library, the environment variable, the generative model and the clock
  (\<open>time_time w n\<close> is the reading of the \<open>n\<close>-th call of \<open>time.time()\<close>).
\<close>

record response =
  final_url :: string
  content :: string

datatype fetch_result = Fetched response | Timeout | RequestException | OtherException

record env =
  requests_get :: "string \<Rightarrow> fetch_result"
  BeautifulSoup :: "string \<Rightarrow> node option"
  urllib_parse :: urllib
  GOOGLE_API_KEY :: "string option"
  generate_content :: "string \<Rightarrow> gen_result"
  time_time :: "nat \<Rightarrow> real"

record analysis =
  url :: string
  title :: string
  emails :: "string set"
  social_links :: "string set"
  about_text :: "string option"
  about_summary :: "string option"
  technologies :: "string set"
  processing_time :: real

definition fetch_page :: "env \<Rightarrow> string \<Rightarrow> response option" where
  "fetch_page w u =
     (case requests_get w u of
        Fetched resp \<Rightarrow> Some resp
      | Timeout \<Rightarrow> None
      | RequestException \<Rightarrow> None
      | OtherException \<Rightarrow> None)"

definition parse_html :: "env \<Rightarrow> store \<Rightarrow> response option \<Rightarrow> nat option \<times> store" where
  "parse_html w h resp =
     (case resp of
        None \<Rightarrow> (None, h)
      | Some rs \<Rightarrow>
          (case BeautifulSoup w (content rs) of
             None \<Rightarrow> (None, h)
           | Some tree \<Rightarrow> (let (r, h') = alloc h tree in (Some r, h'))))"

text \<open>Line 225: the stripped string of the first \<open>title\<close> tag, or \<open>N/A\<close>.\<close>

definition page_title :: "node \<Rightarrow> string" where
  "page_title doc =
     (case find_tag ''title'' doc of
        None \<Rightarrow> ''N/A''
      | Some t \<Rightarrow>
          (case dot_string t of
             None \<Rightarrow> ''N/A''
           | Some s \<Rightarrow> if s \<noteq> [] then strip s else ''N/A''))"

text \<open>Lines 232 to 242: the About page.\<close>

definition about_page ::
  "env \<Rightarrow> store \<Rightarrow> analysis \<Rightarrow> string option \<Rightarrow> analysis \<times> store" where
  "about_page w h results about_url =
     (case about_url of
        None \<Rightarrow> (results, h)
      | Some u \<Rightarrow>
          if u = [] then (results, h)
          else
            (let about_response = fetch_page w u;
                 (about_soup, h1) = parse_html w h about_response
             in case about_soup of
                  None \<Rightarrow> (results, h1)
                | Some r \<Rightarrow>
                    (let (txt, h2) = extract_relevant_text h1 about_soup;
                         results1 = results\<lparr>about_text := txt\<rparr>;
                         results2 =
                           (case txt of
                              None \<Rightarrow> results1
                            | Some t \<Rightarrow>
                                if t \<noteq> []
                                then results1\<lparr>about_summary :=
                                       summarize_text (GOOGLE_API_KEY w) (generate_content w) t\<rparr>
                                else results1)
                     in (results2\<lparr>emails := emails results2 \<union> extract_emails h2 about_soup\<rparr>,
                         h2))))"

text \<open>Lines 244 to 250: the Contact page.\<close>

definition contact_page ::
  "env \<Rightarrow> store \<Rightarrow> analysis \<Rightarrow> string option \<Rightarrow> analysis \<times> store" where
  "contact_page w h results contact_url =
     (case contact_url of
        None \<Rightarrow> (results, h)
      | Some u \<Rightarrow>
          if u = [] then (results, h)
          else
            (let contact_response = fetch_page w u;
                 (contact_soup, h1) = parse_html w h contact_response
             in case contact_soup of
                  None \<Rightarrow> (results, h1)
                | Some r \<Rightarrow>
                    (results\<lparr>emails := emails results \<union> extract_emails h1 contact_soup\<rparr>, h1)))"

definition run_scraping_only :: "env \<Rightarrow> string \<Rightarrow> analysis" where
  "run_scraping_only w target_url =
     (let start_time = time_time w 0;
          results = \<lparr>url = target_url, title = ''N/A'', emails = {}, social_links = {},
                     about_text = None, about_summary = None, technologies = {},
                     processing_time = 0\<rparr>;
          homepage_response = fetch_page w target_url;
          (homepage_soup, h1) = parse_html w [] homepage_response
      in case homepage_soup of
           None \<Rightarrow> results\<lparr>processing_time := time_time w 1 - start_time\<rparr>
         | Some hs \<Rightarrow>
             (let results1 = results\<lparr>title := page_title (h1 ! hs)\<rparr>;
                  results2 = results1\<lparr>emails := emails results1 \<union> extract_emails h1 homepage_soup\<rparr>;
                  links_dict = find_relevant_links (urllib_parse w) h1 homepage_soup target_url;
                  results3 = results2\<lparr>social_links := social links_dict\<rparr>;
                  (results4, h2) = about_page w h1 results3 (about links_dict);
                  (results5, h3) = contact_page w h2 results4 (contact links_dict)
              in results5\<lparr>processing_time := time_time w 1 - start_time\<rparr>))"

section \<open>Example documents\<close>

text \<open>A page with an address in its text, followed by a full stop, and a
  \<open>mailto:\<close> anchor with a query.\<close>

definition doc_mail :: node where
  "doc_mail =
     Tag ''[document]'' [] [Tag ''html'' [] [Tag ''body'' []
       [Tag ''p'' [] [NavigableString ''reach us at sales@example.com.''],
        Tag ''a'' [(''href'', ''mailto:info@example.com?subject=hi'')]
          [NavigableString ''Mail us'']]]]"

text \<open>
  \<open>urljoin\<close> and \<open>urlparse\<close> at finitely many arguments, for the examples: the
  values are the ones CPython's \<open>urllib.parse\<close> computes. An argument that is not
  listed is treated as one the library rejects.
\<close>

definition urllib_of ::
  "((string \<times> string) \<times> string) list \<Rightarrow> (string \<times> (string \<times> string)) list \<Rightarrow> urllib" where
  "urllib_of joins parses =
     \<lparr>urljoin = (\<lambda>b href. map_of joins (b, href)), urlparse = map_of parses\<rparr>"

definition lib_example :: urllib where
  "lib_example =
     urllib_of
       [((''https://example.com'', ''/about''), ''https://example.com/about''),
        ((''https://example.com'', ''/about-us''), ''https://example.com/about-us''),
        ((''https://example.com'', ''/contact''), ''https://example.com/contact''),
        ((''https://example.com'', ''/company''), ''https://example.com/company''),
        ((''https://example.com'', ''https://twitter.com/washingtonpost''),
           ''https://twitter.com/washingtonpost''),
        ((''https://example.com'', ''https://facebook.com/share?foo''),
           ''https://facebook.com/share?foo''),
        ((''https://example.com'', ''https://linkedin.com/company/acme''),
           ''https://linkedin.com/company/acme''),
        ((''https://example.com'', ''https://facewww.book.com/acme''),
           ''https://facewww.book.com/acme'')]
       [(''https://example.com/about'', (''example.com'', ''/about'')),
        (''https://example.com/about-us'', (''example.com'', ''/about-us'')),
        (''https://example.com/contact'', (''example.com'', ''/contact'')),
        (''https://example.com/company'', (''example.com'', ''/company'')),
        (''https://twitter.com/washingtonpost'', (''twitter.com'', ''/washingtonpost'')),
        (''https://facebook.com/share?foo'', (''facebook.com'', ''/share'')),
        (''https://linkedin.com/company/acme'', (''linkedin.com'', ''/company/acme'')),
        (''https://facewww.book.com/acme'', (''facewww.book.com'', ''/acme''))]"

definition anchor :: "string \<Rightarrow> string \<Rightarrow> node" where
  "anchor href label = Tag ''a'' [(''href'', href)] [NavigableString label]"

definition page :: "node list \<Rightarrow> node" where
  "page body_contents =
     Tag ''[document]'' [] [Tag ''html'' [] [Tag ''body'' [] body_contents]]"

text \<open>Two About anchors and a Contact anchor.\<close>

definition doc_two_about :: node where
  "doc_two_about =
     page [anchor ''/about'' ''About'', anchor ''/about-us'' ''About us'',
           anchor ''/contact'' ''Contact'']"

text \<open>An anchor whose target, not its text, has the word \<open>company\<close>.\<close>

definition doc_company :: node where
  "doc_company = page [anchor ''/company'' ''Our team'']"

text \<open>Four anchors to social platforms.\<close>

definition doc_social :: node where
  "doc_social =
     page [anchor ''https://twitter.com/washingtonpost'' ''Twitter'',
           anchor ''https://facebook.com/share?foo'' ''Share'',
           anchor ''https://linkedin.com/company/acme'' ''LinkedIn'',
           anchor ''https://facewww.book.com/acme'' ''Acme'']"

text \<open>A \<open>main\<close> region of 250 characters before an \<open>article\<close> region of 500.\<close>

definition doc_main_article :: node where
  "doc_main_article =
     page [Tag ''main'' [] [NavigableString (replicate 250 CHR ''m'')],
           Tag ''article'' [] [NavigableString (replicate 500 CHR ''a'')]]"

text \<open>A body that holds a navigation bar and nothing else.\<close>

definition doc_nav_only :: node where
  "doc_nav_only = page [Tag ''nav'' [] [anchor ''/'' ''Home'']]"

text \<open>A \<open>main\<close> region of a no-break space and 200 letters, 200 characters once
  stripped, before an \<open>article\<close> region of 500.\<close>

definition doc_main_nbsp :: node where
  "doc_main_nbsp =
     page [Tag ''main'' [] [NavigableString (CHR 0xA0 # replicate 200 CHR ''m'')],
           Tag ''article'' [] [NavigableString (replicate 500 CHR ''a'')]]"

text \<open>A body that holds a no-break space and nothing else.\<close>

definition doc_nbsp :: node where
  "doc_nbsp = page [Tag ''p'' [] [NavigableString [CHR 0xA0]]]"

text \<open>A body that holds only a script of 201 characters, with the id \<open>content\<close>.\<close>

definition doc_script_content :: node where
  "doc_script_content =
     page [Tag ''script'' [(''id'', ''content'')] [OtherString Script (replicate 201 CHR ''x'')]]"

text \<open>A page whose only addresses are in its footer.\<close>

definition doc_footer_mail :: node where
  "doc_footer_mail =
     page [Tag ''p'' [] [NavigableString ''We build things.''],
           Tag ''footer'' []
             [NavigableString ''write to office@example.org'',
              anchor ''mailto:jobs@example.org'' ''Jobs'']]"

text \<open>A document with no \<open>body\<close>.\<close>

definition doc_no_body :: node where
  "doc_no_body = Tag ''[document]'' [] []"

text \<open>A home page with an About link, and an About page with one paragraph.\<close>

definition home_html :: string where
  "home_html =
     ''<html><head><title> Acme </title></head><body><a href=/about>About</a></body></html>''"

definition home_doc :: node where
  "home_doc =
     Tag ''[document]'' []
       [Tag ''html'' []
          [Tag ''head'' [] [Tag ''title'' [] [NavigableString '' Acme '']],
           Tag ''body'' [] [anchor ''/about'' ''About'']]]"

definition about_html :: "string \<Rightarrow> string" where
  "about_html t = ''<html><body><p>'' @ t @ ''</p></body></html>''"

definition about_doc :: "string \<Rightarrow> node" where
  "about_doc t = page [Tag ''p'' [] [NavigableString t]]"

definition text60 :: string where
  "text60 = ''Acme builds small tools for people who like to fix old bikes''"

definition text75 :: string where
  "text75 = ''Acme builds small tools for the people who repair and restore old bicycles.''"

text \<open>
  A site of these two pages: the API key, the text of the About page and the clock are
  left open. Every other URL fails with a network error.
\<close>

definition env_site :: "string option \<Rightarrow> string \<Rightarrow> (nat \<Rightarrow> real) \<Rightarrow> env" where
  "env_site key about_t clock =
     \<lparr>requests_get =
        (\<lambda>u. if u = ''https://example.com''
             then Fetched \<lparr>final_url = ''https://example.com/'', content = home_html\<rparr>
             else if u = ''https://example.com/about''
             then Fetched \<lparr>final_url = ''https://example.com/about'',
                    content = about_html about_t\<rparr>
             else RequestException),
      BeautifulSoup =
        (\<lambda>c. if c = home_html then Some home_doc
             else if c = about_html about_t then Some (about_doc about_t)
             else None),
      urllib_parse = lib_example,
      GOOGLE_API_KEY = key,
      generate_content = (\<lambda>p. Parts ''Acme makes tools for bicycle repair.''),
      time_time = clock\<rparr>"

section \<open>The link rules, for stating the properties\<close>

text \<open>The absolute URL the loop works with for an anchor: none when the anchor is
  skipped or \<open>urljoin\<close> raises.\<close>

definition resolved :: "urllib \<Rightarrow> string \<Rightarrow> node \<Rightarrow> string option" where
  "resolved lib base_url link =
     (let href = tag_get link ''href'' []
      in if skipped_href href then None else urljoin lib base_url href)"

definition about_qualifying :: "urllib \<Rightarrow> string \<Rightarrow> node \<Rightarrow> bool" where
  "about_qualifying lib base_url link =
     (resolved lib base_url link \<noteq> None
      \<and> is_about_link (strip (lower (get_text link))) (lower (tag_get link ''href'' [])))"

definition contact_qualifying :: "urllib \<Rightarrow> string \<Rightarrow> node \<Rightarrow> bool" where
  "contact_qualifying lib base_url link =
     (resolved lib base_url link \<noteq> None
      \<and> is_contact_link (strip (lower (get_text link))) (lower (tag_get link ''href'' [])))"

definition social_url :: "urllib \<Rightarrow> string \<Rightarrow> bool" where
  "social_url lib u =
     (case urlparse lib u of None \<Rightarrow> False | Some (netloc, path) \<Rightarrow> is_social netloc path)"

text \<open>What a slot holds after a scan, from the resolutions of the qualifying anchors
  in scan order: the first that is not the empty string; the empty string when all are
  empty; nothing when there is none.\<close>

fun first_kept :: "string list \<Rightarrow> string option" where
  "first_kept [] = None"
| "first_kept (u # us) =
     (if u \<noteq> [] then Some u
      else (case first_kept us of None \<Rightarrow> Some [] | Some v \<Rightarrow> Some v))"

text \<open>
  The About rule in the words of the specification: the visible text or the target
  contains \<open>about\<close>, \<open>company\<close> or \<open>who we are\<close>, letter case and hyphens set
  aside, and the target contains none of the exclusion terms.
\<close>

definition hyphen_fold :: "string \<Rightarrow> string" where
  "hyphen_fold s = map (\<lambda>c. if c = CHR ''-'' then CHR '' '' else c) (lower s)"

definition spec_about_candidate :: "string \<Rightarrow> string \<Rightarrow> bool" where
  "spec_about_candidate link_text href =
     (list_ex (\<lambda>kw. str_in kw (hyphen_fold link_text) \<or> str_in kw (hyphen_fold href))
        [''about'', ''company'', ''who we are'']
      \<and> \<not> list_ex (\<lambda>kw. str_in kw (lower href))
            [''blog'', ''news'', ''press'', ''careers'', ''jobs'', ''events''])"

text \<open>The host without a leading \<open>www.\<close>, in the words of the specification.\<close>

definition strip_leading_www :: "string \<Rightarrow> string" where
  "strip_leading_www netloc = (if startswith netloc ''www.'' then drop 4 netloc else netloc)"

section \<open>The content rules, for stating the properties\<close>

text \<open>A selector qualifies when its first match has more than 200 characters of
  text.\<close>

definition qualifies :: "node \<Rightarrow> selector \<Rightarrow> bool" where
  "qualifies doc sel =
     (case select_one sel doc of
        None \<Rightarrow> False
      | Some content_area \<Rightarrow> length (get_text_sep_strip content_area) > 200)"

text \<open>The body without its noise elements.\<close>

definition cleaned :: "node \<Rightarrow> node" where
  "cleaned body = foldl (\<lambda>t tag_name. decompose_all tag_name t) body noise_selectors"

section \<open>The orchestrator's rule for the summary, for stating the properties\<close>

text \<open>The summary is the summarizer's answer for the text, when there is a text.\<close>

definition summary_inv :: "env \<Rightarrow> analysis \<Rightarrow> bool" where
  "summary_inv w res =
     (about_summary res =
        (case about_text res of
           None \<Rightarrow> None
         | Some t \<Rightarrow>
             if t = [] then None
             else summarize_text (GOOGLE_API_KEY w) (generate_content w) t))"

section \<open>Properties of the string functions\<close>

lemma split_on_first:
  "(case split_on c s of p # _ \<Rightarrow> p | [] \<Rightarrow> []) = takeWhile (\<lambda>x. x \<noteq> c) s"
  by (induction s) (auto split: list.splits)

section \<open>Properties of the email pattern\<close>

lemma domain_backtrack_Some:
  "domain_backtrack t k = Some (m, n3) \<Longrightarrow>
     0 < m \<and> m \<le> k \<and> m < length t \<and> t ! m = CHR ''.''
     \<and> n3 = length (takeWhile alpha (drop (Suc m) t)) \<and> 2 \<le> n3"
  by (induction k) (auto simp: Let_def split: if_splits)

lemma take_prefix_takeWhile:
  "m \<le> length (takeWhile P t) \<Longrightarrow> list_all P (take m t)"
proof -
  assume m: "m \<le> length (takeWhile P t)"
  have "take m t = take m (takeWhile P t)"
    by (metis m takeWhile_eq_take take_take min.absorb1)
  moreover have "list_all P (takeWhile P t)"
    by (simp add: list_all_iff) (meson set_takeWhileD)
  ultimately show ?thesis
    by (metis list_all_iff in_set_takeD)
qed

lemma takeWhile_all: "list_all P (takeWhile P xs)"
  by (simp add: list_all_iff) (meson set_takeWhileD)

lemma email_match_len_grammar:
  assumes "email_match_len s = Some n"
  shows "email_grammar (take n s)"
proof -
  define l where "l = takeWhile local_char s"
  from assms have l_ne: "l \<noteq> []"
    by (auto simp: email_match_len_def Let_def l_def split: if_splits)
  from assms obtain t m n3 where
    dr: "drop (length l) s = CHR ''@'' # t" and
    bt: "domain_backtrack t (length (takeWhile domain_char t)) = Some (m, n3)" and
    n: "n = length l + 1 + m + 1 + n3"
    by (auto simp: email_match_len_def Let_def l_def split: if_splits list.splits option.splits)
  from domain_backtrack_Some[OF bt] have
    m: "0 < m" "m \<le> length (takeWhile domain_char t)" "m < length t" "t ! m = CHR ''.''"
    and n3: "n3 = length (takeWhile alpha (drop (Suc m) t))" "2 \<le> n3"
    by auto
  have s: "s = l @ CHR ''@'' # t"
    by (metis dr l_def append_take_drop_id takeWhile_eq_take)
  have t: "t = take m t @ CHR ''.'' # drop (Suc m) t"
    using m(3,4) by (metis id_take_nth_drop)
  define a where "a = takeWhile alpha (drop (Suc m) t)"
  have a: "take n3 (drop (Suc m) t) = a"
    unfolding a_def n3(1) by (metis takeWhile_eq_take)
  have "take n s = l @ CHR ''@'' # take (m + 1 + n3) t"
    by (subst s) (simp add: n)
  also have "take (m + 1 + n3) t = take m t @ CHR ''.'' # a"
    using m(3) a by (subst t) (simp add: min_def)
  finally have eq: "take n s = l @ ''@'' @ take m t @ ''.'' @ a" by simp
  have "list_all local_char l" unfolding l_def by (rule takeWhile_all)
  moreover have "take m t \<noteq> []" using m(1,3) by auto
  moreover have "list_all domain_char (take m t)" using m(2) by (rule take_prefix_takeWhile)
  moreover have "list_all alpha a" unfolding a_def by (rule takeWhile_all)
  moreover have "2 \<le> length a" using n3 a_def by simp
  ultimately show ?thesis
    unfolding email_grammar_def using eq l_ne by blast
qed

lemma re_findall_grammar: "e \<in> set (re_findall s) \<Longrightarrow> email_grammar e"
proof (induction s rule: re_findall.induct)
  case (1 s)
  show ?case
  proof (cases "s = []")
    case True
    with 1(3) show ?thesis by (simp add: re_findall.simps)
  next
    case False
    show ?thesis
    proof (cases "email_match_len s")
      case None
      with False 1 show ?thesis by (subst (asm) (2) re_findall.simps) simp
    next
      case (Some n)
      with False 1(3) have "e = take n s \<or> e \<in> set (re_findall (drop (max 1 n) s))"
        by (subst (asm) re_findall.simps) auto
      then show ?thesis
        using 1(2)[OF False Some] email_match_len_grammar[OF Some] by auto
    qed
  qed
qed


lemma not_local_at: "\<not> local_char CHR ''@''"
  by (simp add: local_char_def alpha_def)

lemma not_alpha_dot: "\<not> alpha CHR ''.''"
  by (simp add: alpha_def)

lemma grammar_fullmatch:
  assumes "email_grammar s"
  shows "re_fullmatch s"
proof -
  from assms obtain l d a where
    s: "s = l @ ''@'' @ d @ ''.'' @ a" and l: "l \<noteq> []" "list_all local_char l"
    and d: "d \<noteq> []" "list_all domain_char d" and a: "2 \<le> length a" "list_all alpha a"
    unfolding email_grammar_def by blast
  define u where "u = d @ ''.'' @ a"
  have tw: "takeWhile local_char s = l"
    using l(2) not_local_at by (simp add: s list_all_iff)
  have dr: "drop (length l) s = CHR ''@'' # u"
    by (simp add: s u_def)
  have "takeWhile alpha (rev a @ (CHR ''.'' # rev d)) = rev a @ takeWhile alpha (CHR ''.'' # rev d)"
    by (rule takeWhile_append2) (use a(2) in \<open>simp add: list_all_iff\<close>)
  then have ra: "rev (takeWhile alpha (rev u)) = a"
    using not_alpha_dot by (simp add: u_def)
  have tk: "take (length u - length a) u = d @ ''.''"
    by (simp add: u_def)
  show ?thesis
    unfolding re_fullmatch_def Let_def tw dr ra list.case tk
    using l d a by simp
qed

lemma fullmatch_grammar:
  assumes "re_fullmatch s"
  shows "email_grammar s"
proof -
  define l where "l = takeWhile local_char s"
  from assms have l: "l \<noteq> []"
    by (simp add: re_fullmatch_def Let_def l_def)
  from assms obtain u where dr: "drop (length l) s = CHR ''@'' # u"
    by (auto simp: re_fullmatch_def Let_def l_def split: list.splits)
  define a where "a = rev (takeWhile alpha (rev u))"
  define d where "d = take (length u - length a) u"
  from assms dr have p: "2 \<le> length a" "d \<noteq> []" "last d = CHR ''.''" "butlast d \<noteq> []"
    "list_all domain_char (butlast d)"
    by (auto simp: re_fullmatch_def Let_def l_def[symmetric] a_def d_def)
  have s: "s = l @ CHR ''@'' # u"
    by (metis dr l_def append_take_drop_id takeWhile_eq_take)
  have "rev u = takeWhile alpha (rev u) @ dropWhile alpha (rev u)" by simp
  then have "u = rev (dropWhile alpha (rev u)) @ a"
    unfolding a_def by (metis rev_append rev_rev_ident)
  moreover from this have "d = rev (dropWhile alpha (rev u))"
    unfolding d_def by (metis append_eq_conv_conj length_append add_diff_cancel_right')
  ultimately have u: "u = d @ a" by simp
  have "d = butlast d @ ''.''" using p(2,3) by (metis append_butlast_last_id)
  with u s have "s = l @ ''@'' @ butlast d @ ''.'' @ a" by simp
  moreover have "list_all local_char l" unfolding l_def by (rule takeWhile_all)
  moreover have "list_all alpha a" unfolding a_def
    by (simp add: list_all_iff) (meson set_takeWhileD)
  ultimately show ?thesis
    unfolding email_grammar_def using l p by blast
qed

lemma re_fullmatch_iff: "re_fullmatch s = email_grammar s"
  using grammar_fullmatch fullmatch_grammar by blast

section \<open>Properties of email extraction\<close>

lemma add_mailto_eq:
  "add_mailto E link =
     (if startswith (tag_get link ''href'' []) ''mailto:''
         \<and> email_grammar (takeWhile (\<lambda>c. c \<noteq> CHR ''?'') (drop 7 (tag_get link ''href'' [])))
      then insert (takeWhile (\<lambda>c. c \<noteq> CHR ''?'') (drop 7 (tag_get link ''href'' []))) E else E)"
  by (simp add: add_mailto_def Let_def split_on_first re_fullmatch_iff)

lemma foldl_findall:
  "foldl (\<lambda>acc t. acc \<union> set (re_findall t)) E ts = E \<union> (\<Union>t\<in>set ts. set (re_findall t))"
  by (induction ts arbitrary: E) auto

lemma foldl_add_mailto:
  "foldl add_mailto E links =
     E \<union> {p. \<exists>link\<in>set links. startswith (tag_get link ''href'' []) ''mailto:''
              \<and> p = takeWhile (\<lambda>c. c \<noteq> CHR ''?'') (drop 7 (tag_get link ''href'' []))
              \<and> email_grammar p}"
  by (induction links arbitrary: E) (auto simp: add_mailto_eq)

lemma extract_emails_Some:
  "extract_emails h (Some r) =
     (\<Union>t\<in>set (find_all_string (h ! r)). set (re_findall t))
     \<union> {p. \<exists>link\<in>set (find_all_a_href (h ! r)). startswith (tag_get link ''href'' []) ''mailto:''
              \<and> p = takeWhile (\<lambda>c. c \<noteq> CHR ''?'') (drop 7 (tag_get link ''href'' []))
              \<and> email_grammar p}"
  by (simp add: extract_emails_def Let_def foldl_findall foldl_add_mailto)

lemma extract_emails_None: "extract_emails h None = {}"
  by (simp add: extract_emails_def)

lemma extract_emails_finite: "finite (extract_emails h soup)"
  by (cases soup) (simp_all add: extract_emails_None extract_emails_Some)

text \<open>
  C5. The result of \<open>extract_emails\<close> is a finite set, every address in it is a word
  of the email grammar as a whole, and for a \<open>mailto:\<close> anchor the target without
  the scheme and without what follows the first \<open>?\<close> is in the result exactly when it
  is a word of the grammar.
\<close>

theorem extract_emails_grammar:
  "finite (extract_emails h soup)
   \<and> (\<forall>e \<in> extract_emails h soup. email_grammar e)
   \<and> (\<forall>link \<in> set (find_all_a_href (h ! r)).
        startswith (tag_get link ''href'' []) ''mailto:'' \<longrightarrow>
          (takeWhile (\<lambda>c. c \<noteq> CHR ''?'') (drop 7 (tag_get link ''href'' []))
             \<in> extract_emails h (Some r))
          = email_grammar (takeWhile (\<lambda>c. c \<noteq> CHR ''?'') (drop 7 (tag_get link ''href'' []))))"
proof (intro conjI ballI impI)
  show "finite (extract_emails h soup)" by (rule extract_emails_finite)
next
  fix e assume "e \<in> extract_emails h soup"
  then show "email_grammar e"
    by (cases soup) (auto simp: extract_emails_Some extract_emails_None dest: re_findall_grammar)
next
  fix link
  assume "link \<in> set (find_all_a_href (h ! r))"
    and "startswith (tag_get link ''href'' []) ''mailto:''"
  then show "(takeWhile (\<lambda>c. c \<noteq> CHR ''?'') (drop 7 (tag_get link ''href'' []))
             \<in> extract_emails h (Some r))
          = email_grammar (takeWhile (\<lambda>c. c \<noteq> CHR ''?'') (drop 7 (tag_get link ''href'' [])))"
    by (auto simp: extract_emails_Some dest: re_findall_grammar)
qed

theorem extract_emails_grammar_witness:
  "''sales@example.com'' \<in> extract_emails [doc_mail] (Some 0)
   \<and> email_grammar ''sales@example.com''
   \<and> ''info@example.com'' \<in> extract_emails [doc_mail] (Some 0)
   \<and> email_grammar ''info@example.com''
   \<and> finite (extract_emails [doc_mail] (Some 0))"
proof -
  have m1: "''sales@example.com'' \<in> extract_emails [doc_mail] (Some 0)" by code_simp
  have m2: "''info@example.com'' \<in> extract_emails [doc_mail] (Some 0)" by code_simp
  note th = extract_emails_grammar [of "[doc_mail]" "Some 0" 0]
  from th m1 have "email_grammar ''sales@example.com''" by blast
  moreover from th m2 have "email_grammar ''info@example.com''" by blast
  moreover from th have "finite (extract_emails [doc_mail] (Some 0))" by blast
  ultimately show ?thesis using m1 m2 by blast
qed

section \<open>The absent document\<close>

text \<open>
  C10. With no document (\<open>None\<close>), each extraction returns its empty value: no About
  and no Contact link and no social link, no email, no text. The store is left as it
  was.
\<close>

theorem absent_document_empty:
  "find_relevant_links lib h None base_url = \<lparr>about = None, contact = None, social = {}\<rparr>
   \<and> extract_emails h None = {}
   \<and> extract_relevant_text h None = (None, h)"
  by (simp add: find_relevant_links_def no_links_def extract_emails_def
      extract_relevant_text_def)

section \<open>Properties of link classification\<close>

lemma about_classify_link:
  "about (classify_link lib b links link) =
     (if \<not> truthy (about links) \<and> about_qualifying lib b link then resolved lib b link
      else about links)"
  by (auto simp: classify_link_def about_qualifying_def resolved_def Let_def
      split: option.splits prod.splits)

lemma contact_classify_link:
  "contact (classify_link lib b links link) =
     (if \<not> truthy (contact links) \<and> contact_qualifying lib b link then resolved lib b link
      else contact links)"
  by (auto simp: classify_link_def contact_qualifying_def resolved_def Let_def
      split: option.splits prod.splits)

lemma social_classify_link:
  "social (classify_link lib b links link) =
     (case resolved lib b link of
        None \<Rightarrow> social links
      | Some u \<Rightarrow> if social_url lib u then insert u (social links) else social links)"
  by (auto simp: classify_link_def social_url_def resolved_def Let_def
      split: option.splits prod.splits)

lemma first_kept_None: "first_kept us = None \<longleftrightarrow> us = []"
  by (cases us) (auto split: option.splits)

lemma about_foldl:
  "about (foldl (classify_link lib b) links as) =
     (if truthy (about links) then about links
      else (case first_kept (List.map_filter (resolved lib b) (filter (about_qualifying lib b) as)) of
              None \<Rightarrow> about links
            | Some u \<Rightarrow> Some u))"
proof (induction as arbitrary: links)
  case Nil
  then show ?case by (simp add:)
next
  case (Cons a as)
  show ?case
  proof (cases "\<not> truthy (about links) \<and> about_qualifying lib b a")
    case False
    then show ?thesis
      by (auto simp: Cons.IH about_classify_link split: option.splits)
  next
    case True
    then obtain u where u: "resolved lib b a = Some u"
      by (auto simp: about_qualifying_def)
    with True show ?thesis
      by (auto simp: Cons.IH about_classify_link split: option.splits)
  qed
qed

lemma contact_foldl:
  "contact (foldl (classify_link lib b) links as) =
     (if truthy (contact links) then contact links
      else (case first_kept (List.map_filter (resolved lib b) (filter (contact_qualifying lib b) as)) of
              None \<Rightarrow> contact links
            | Some u \<Rightarrow> Some u))"
proof (induction as arbitrary: links)
  case Nil
  then show ?case by (simp add:)
next
  case (Cons a as)
  show ?case
  proof (cases "\<not> truthy (contact links) \<and> contact_qualifying lib b a")
    case False
    then show ?thesis
      by (auto simp: Cons.IH contact_classify_link split: option.splits)
  next
    case True
    then obtain u where u: "resolved lib b a = Some u"
      by (auto simp: contact_qualifying_def)
    with True show ?thesis
      by (auto simp: Cons.IH contact_classify_link split: option.splits)
  qed
qed

lemma social_foldl:
  "social (foldl (classify_link lib b) links as) =
     social links \<union> {u. \<exists>link\<in>set as. resolved lib b link = Some u \<and> social_url lib u}"
  by (induction as arbitrary: links) (auto simp: social_classify_link split: option.splits)


lemma find_relevant_links_Some:
  "find_relevant_links lib h (Some r) b =
     foldl (classify_link lib b) no_links (find_all_a_href (h ! r))"
  by (simp add: find_relevant_links_def)

lemma about_find_relevant_links:
  "about (find_relevant_links lib h (Some r) b) =
     first_kept (List.map_filter (resolved lib b)
       (filter (about_qualifying lib b) (find_all_a_href (h ! r))))"
  by (simp add: find_relevant_links_Some about_foldl no_links_def split: option.splits)

lemma contact_find_relevant_links:
  "contact (find_relevant_links lib h (Some r) b) =
     first_kept (List.map_filter (resolved lib b)
       (filter (contact_qualifying lib b) (find_all_a_href (h ! r))))"
  by (simp add: find_relevant_links_Some contact_foldl no_links_def split: option.splits)

lemma social_find_relevant_links:
  "social (find_relevant_links lib h (Some r) b) =
     {u. \<exists>link\<in>set (find_all_a_href (h ! r)). resolved lib b link = Some u \<and> social_url lib u}"
  by (simp add: find_relevant_links_Some social_foldl no_links_def)

lemma first_kept_first:
  assumes "\<forall>x \<in> set xs. f x \<noteq> None \<and> f x \<noteq> Some []"
  shows "first_kept (List.map_filter f xs) = (case xs of [] \<Rightarrow> None | a # rest \<Rightarrow> f a)"
  using assms by (cases xs) (auto split: option.splits)

text \<open>
  C1. Each of the two slots holds at most one URL: a slot is an optional string. Let
  the base URL be one for which \<open>urljoin\<close> never answers the empty string for an
  anchor of the document; every base with a scheme is one, and the orchestrator passes
  the URL it has just fetched. Then after the scan the About slot holds the resolution
  of the first About-qualifying anchor in scan order, whatever anchors follow it, and
  nothing when no anchor qualifies; the same holds of the Contact slot. An anchor
  qualifies when it is not skipped, \<open>urljoin\<close> accepts its target and the rule holds
  of it.
\<close>

theorem first_wins:
  assumes "\<forall>link \<in> set (find_all_a_href (h ! r)). resolved lib b link \<noteq> Some []"
  shows "about (find_relevant_links lib h (Some r) b) =
       (case filter (about_qualifying lib b) (find_all_a_href (h ! r)) of
          [] \<Rightarrow> None
        | a # rest \<Rightarrow> resolved lib b a)
     \<and> contact (find_relevant_links lib h (Some r) b) =
       (case filter (contact_qualifying lib b) (find_all_a_href (h ! r)) of
          [] \<Rightarrow> None
        | a # rest \<Rightarrow> resolved lib b a)"
proof
  have "\<forall>x \<in> set (filter (about_qualifying lib b) (find_all_a_href (h ! r))).
      resolved lib b x \<noteq> None \<and> resolved lib b x \<noteq> Some []"
    using assms by (simp add: about_qualifying_def)
  then show "about (find_relevant_links lib h (Some r) b) =
       (case filter (about_qualifying lib b) (find_all_a_href (h ! r)) of
          [] \<Rightarrow> None
        | a # rest \<Rightarrow> resolved lib b a)"
    unfolding about_find_relevant_links by (rule first_kept_first)
next
  have "\<forall>x \<in> set (filter (contact_qualifying lib b) (find_all_a_href (h ! r))).
      resolved lib b x \<noteq> None \<and> resolved lib b x \<noteq> Some []"
    using assms by (simp add: contact_qualifying_def)
  then show "contact (find_relevant_links lib h (Some r) b) =
       (case filter (contact_qualifying lib b) (find_all_a_href (h ! r)) of
          [] \<Rightarrow> None
        | a # rest \<Rightarrow> resolved lib b a)"
    unfolding contact_find_relevant_links by (rule first_kept_first)
qed

theorem first_wins_witness:
  "filter (about_qualifying lib_example ''https://example.com'') (find_all_a_href doc_two_about)
     = [anchor ''/about'' ''About'', anchor ''/about-us'' ''About us'']
   \<and> about (find_relevant_links lib_example [doc_two_about] (Some 0) ''https://example.com'')
       = Some ''https://example.com/about''
   \<and> contact (find_relevant_links lib_example [doc_two_about] (Some 0) ''https://example.com'')
       = Some ''https://example.com/contact''"
proof -
  have n: "\<forall>link \<in> set (find_all_a_href ([doc_two_about] ! 0)).
      resolved lib_example ''https://example.com'' link \<noteq> Some []"
    by code_simp
  have a: "filter (about_qualifying lib_example ''https://example.com'')
             (find_all_a_href ([doc_two_about] ! 0))
           = [anchor ''/about'' ''About'', anchor ''/about-us'' ''About us'']"
    by code_simp
  have ra: "resolved lib_example ''https://example.com'' (anchor ''/about'' ''About'')
            = Some ''https://example.com/about''"
    by code_simp
  have c: "filter (contact_qualifying lib_example ''https://example.com'')
             (find_all_a_href ([doc_two_about] ! 0))
           = [anchor ''/contact'' ''Contact'']"
    by code_simp
  have rc: "resolved lib_example ''https://example.com'' (anchor ''/contact'' ''Contact'')
            = Some ''https://example.com/contact''"
    by code_simp
  note th = first_wins [OF n]
  from th a ra have "about (find_relevant_links lib_example [doc_two_about] (Some 0)
      ''https://example.com'') = Some ''https://example.com/about''"
    by simp
  moreover from th c rc have "contact (find_relevant_links lib_example [doc_two_about] (Some 0)
      ''https://example.com'') = Some ''https://example.com/contact''"
    by simp
  ultimately show ?thesis using a by simp
qed

text \<open>
  C2 (as amended). For an anchor that is not skipped and whose target \<open>urljoin\<close>
  accepts, met with an empty About slot: the slot is filled, that is the anchor is an
  About candidate, exactly when its stripped lower-case text contains \<open>about\<close>,
  \<open>company\<close> or \<open>who we are\<close>, or its lower-case target contains \<open>/about\<close> or
  \<open>who-we-are\<close>, and its lower-case target contains none of the exclusion terms.
\<close>

theorem about_candidate_rule:
  assumes "\<not> skipped_href (tag_get link ''href'' [])"
    and "urljoin lib b (tag_get link ''href'' []) = Some u"
    and "about links = None"
  shows "about (classify_link lib b links link) =
     (if (str_in ''about'' (strip (lower (get_text link)))
            \<or> str_in ''company'' (strip (lower (get_text link)))
            \<or> str_in ''who we are'' (strip (lower (get_text link)))
            \<or> str_in ''/about'' (lower (tag_get link ''href'' []))
            \<or> str_in ''who-we-are'' (lower (tag_get link ''href'' [])))
          \<and> (\<forall>kw \<in> set [''blog'', ''news'', ''press'', ''careers'', ''jobs'', ''events''].
                \<not> str_in kw (lower (tag_get link ''href'' [])))
      then Some u else None)"
  using assms
  by (auto simp: about_classify_link about_qualifying_def resolved_def is_about_link_def)

theorem about_candidate_rule_witness:
  "about (classify_link lib_example ''https://example.com'' no_links (anchor ''/about'' ''About''))
     = Some ''https://example.com/about''
   \<and> about (classify_link lib_example ''https://example.com'' no_links
        (anchor ''/company'' ''Our team'')) = None"
proof -
  have 1: "about (classify_link lib_example ''https://example.com'' no_links
      (anchor ''/about'' ''About'')) = Some ''https://example.com/about''"
    by (subst about_candidate_rule [where u = "''https://example.com/about''"]; code_simp)
  have 2: "about (classify_link lib_example ''https://example.com'' no_links
        (anchor ''/company'' ''Our team'')) = None"
    by (subst about_candidate_rule [where u = "''https://example.com/company''"]; code_simp)
  from 1 2 show ?thesis by simp
qed

text \<open>
  The claim as first stated fails for a target that contains \<open>company\<close> under a
  text that has none of the words: the rule of the specification holds, the test of the
  code does not, and no About link is found.
\<close>

theorem about_rule_counterexample:
  "\<not> skipped_href ''/company''
   \<and> spec_about_candidate ''Our team'' ''/company''
   \<and> \<not> is_about_link (strip (lower ''Our team'')) (lower ''/company'')
   \<and> about (find_relevant_links lib_example [doc_company] (Some 0) ''https://example.com'')
       = None"
  by code_simp

lemma is_social_iff:
  "is_social netloc path \<longleftrightarrow>
     (\<exists>d \<in> set SOCIAL_DOMAINS. str_in d (replace_www netloc))
     \<and> (\<forall>w \<in> set [''/share'', ''/intent'', ''/addtoany'', ''/login'', ''/post'', ''/status'',
                     ''/jobs'', ''/careers'', ''/legal'', ''/privacy''].
           \<not> str_in w (lower path))
     \<and> (length (filter (\<lambda>p. p \<noteq> []) (split_on CHR ''/'' (lower path))) \<le> 2
        \<or> (\<exists>p \<in> set (filter (\<lambda>p. p \<noteq> []) (split_on CHR ''/'' (lower path))).
              p \<in> set [''company'', ''in'', ''user'', ''channel'']))"
  unfolding is_social_def Let_def list_ex_iff by auto

lemma not_social_facebook_share: "\<not> is_social ''facebook.com'' ''/share''"
  by code_simp

lemma social_linkedin_company: "is_social ''linkedin.com'' ''/company/acme''"
  by code_simp

text \<open>
  C4 (as amended). Every URL of the social set is the resolution of an anchor of the
  document; its \<open>netloc\<close>, with every occurrence of \<open>www.\<close> removed, contains one of
  the social domains; its lower-case path contains none of \<open>/share\<close>, \<open>/intent\<close>,
  \<open>/addtoany\<close>, \<open>/login\<close>, \<open>/post\<close>, \<open>/status\<close>, \<open>/jobs\<close>, \<open>/careers\<close>,
  \<open>/legal\<close>, \<open>/privacy\<close>; and the path has at most two segments that are not empty,
  or a segment among \<open>company\<close>, \<open>in\<close>, \<open>user\<close>, \<open>channel\<close>. Every resolved
  anchor that passes this test is in the set. \<open>https://facebook.com/share?foo\<close>, whose
  path is \<open>/share\<close>, is never in the set; \<open>https://linkedin.com/company/acme\<close> is in
  the set whenever an anchor resolves to it.
\<close>

theorem social_links_rule:
  "(\<forall>u \<in> social (find_relevant_links lib h (Some r) b).
      \<exists>netloc path. urlparse lib u = Some (netloc, path)
        \<and> (\<exists>d \<in> set SOCIAL_DOMAINS. str_in d (replace_www netloc))
        \<and> (\<forall>w \<in> set [''/share'', ''/intent'', ''/addtoany'', ''/login'', ''/post'',
                        ''/status'', ''/jobs'', ''/careers'', ''/legal'', ''/privacy''].
              \<not> str_in w (lower path))
        \<and> (length (filter (\<lambda>p. p \<noteq> []) (split_on CHR ''/'' (lower path))) \<le> 2
           \<or> (\<exists>p \<in> set (filter (\<lambda>p. p \<noteq> []) (split_on CHR ''/'' (lower path))).
                 p \<in> set [''company'', ''in'', ''user'', ''channel''])))
   \<and> (\<forall>u \<in> social (find_relevant_links lib h (Some r) b).
        \<exists>link \<in> set (find_all_a_href (h ! r)). resolved lib b link = Some u)
   \<and> (\<forall>link \<in> set (find_all_a_href (h ! r)). \<forall>u netloc path.
        resolved lib b link = Some u \<and> urlparse lib u = Some (netloc, path)
          \<and> is_social netloc path
        \<longrightarrow> u \<in> social (find_relevant_links lib h (Some r) b))
   \<and> (urlparse lib ''https://facebook.com/share?foo'' = Some (''facebook.com'', ''/share'')
        \<longrightarrow> ''https://facebook.com/share?foo''
              \<notin> social (find_relevant_links lib h (Some r) b))
   \<and> ((\<exists>link \<in> set (find_all_a_href (h ! r)).
          resolved lib b link = Some ''https://linkedin.com/company/acme'')
        \<and> urlparse lib ''https://linkedin.com/company/acme''
            = Some (''linkedin.com'', ''/company/acme'')
        \<longrightarrow> ''https://linkedin.com/company/acme''
              \<in> social (find_relevant_links lib h (Some r) b))"
proof (intro conjI ballI allI impI)
  fix u assume "u \<in> social (find_relevant_links lib h (Some r) b)"
  then obtain netloc path where "urlparse lib u = Some (netloc, path)" "is_social netloc path"
    by (auto simp: social_find_relevant_links social_url_def split: option.splits)
  then show "\<exists>netloc path. urlparse lib u = Some (netloc, path)
        \<and> (\<exists>d \<in> set SOCIAL_DOMAINS. str_in d (replace_www netloc))
        \<and> (\<forall>w \<in> set [''/share'', ''/intent'', ''/addtoany'', ''/login'', ''/post'',
                        ''/status'', ''/jobs'', ''/careers'', ''/legal'', ''/privacy''].
              \<not> str_in w (lower path))
        \<and> (length (filter (\<lambda>p. p \<noteq> []) (split_on CHR ''/'' (lower path))) \<le> 2
           \<or> (\<exists>p \<in> set (filter (\<lambda>p. p \<noteq> []) (split_on CHR ''/'' (lower path))).
                 p \<in> set [''company'', ''in'', ''user'', ''channel'']))"
    using is_social_iff [of netloc path] by blast
next
  fix u assume "u \<in> social (find_relevant_links lib h (Some r) b)"
  then show "\<exists>link \<in> set (find_all_a_href (h ! r)). resolved lib b link = Some u"
    by (auto simp: social_find_relevant_links)
next
  fix link u netloc path
  assume "link \<in> set (find_all_a_href (h ! r))"
    and "resolved lib b link = Some u \<and> urlparse lib u = Some (netloc, path)
          \<and> is_social netloc path"
  then show "u \<in> social (find_relevant_links lib h (Some r) b)"
    by (auto simp: social_find_relevant_links social_url_def)
next
  assume "urlparse lib ''https://facebook.com/share?foo'' = Some (''facebook.com'', ''/share'')"
  then show "''https://facebook.com/share?foo''
              \<notin> social (find_relevant_links lib h (Some r) b)"
    using not_social_facebook_share
    by (auto simp: social_find_relevant_links social_url_def)
next
  assume "(\<exists>link \<in> set (find_all_a_href (h ! r)).
          resolved lib b link = Some ''https://linkedin.com/company/acme'')
        \<and> urlparse lib ''https://linkedin.com/company/acme''
            = Some (''linkedin.com'', ''/company/acme'')"
  then show "''https://linkedin.com/company/acme''
              \<in> social (find_relevant_links lib h (Some r) b)"
    using social_linkedin_company
    by (auto simp: social_find_relevant_links social_url_def)
qed

theorem social_links_rule_witness:
  "''https://linkedin.com/company/acme''
     \<in> social (find_relevant_links lib_example [doc_social] (Some 0) ''https://example.com'')
   \<and> ''https://facebook.com/share?foo''
     \<notin> social (find_relevant_links lib_example [doc_social] (Some 0) ''https://example.com'')
   \<and> resolved lib_example ''https://example.com''
        (anchor ''https://facebook.com/share?foo'' ''Share'')
       = Some ''https://facebook.com/share?foo''"
proof -
  note th = social_links_rule [of lib_example "[doc_social]" 0 "''https://example.com''"]
  have m: "anchor ''https://linkedin.com/company/acme'' ''LinkedIn''
             \<in> set (find_all_a_href ([doc_social] ! 0))"
    by code_simp
  have rl: "resolved lib_example ''https://example.com''
              (anchor ''https://linkedin.com/company/acme'' ''LinkedIn'')
            = Some ''https://linkedin.com/company/acme''"
    by code_simp
  have pl: "urlparse lib_example ''https://linkedin.com/company/acme''
            = Some (''linkedin.com'', ''/company/acme'')"
    by code_simp
  have pf: "urlparse lib_example ''https://facebook.com/share?foo''
            = Some (''facebook.com'', ''/share'')"
    by code_simp
  have rf: "resolved lib_example ''https://example.com''
        (anchor ''https://facebook.com/share?foo'' ''Share'')
       = Some ''https://facebook.com/share?foo''"
    by code_simp
  from th m rl pl have "''https://linkedin.com/company/acme''
     \<in> social (find_relevant_links lib_example [doc_social] (Some 0) ''https://example.com'')"
    by blast
  moreover from th pf have "''https://facebook.com/share?foo''
     \<notin> social (find_relevant_links lib_example [doc_social] (Some 0) ''https://example.com'')"
    by blast
  ultimately show ?thesis using rf by blast
qed

text \<open>
  The claim as first stated fails in two places: the path \<open>/washingtonpost\<close>
  contains \<open>post\<close> but not \<open>/post\<close>, and the host \<open>facewww.book.com\<close> contains a
  social domain only once the inner \<open>www.\<close> is removed. Both URLs are in the set.
\<close>

theorem social_rule_counterexample:
  "''https://twitter.com/washingtonpost''
     \<in> social (find_relevant_links lib_example [doc_social] (Some 0) ''https://example.com'')
   \<and> urlparse lib_example ''https://twitter.com/washingtonpost''
       = Some (''twitter.com'', ''/washingtonpost'')
   \<and> str_in ''post'' ''/washingtonpost''
   \<and> ''https://facewww.book.com/acme''
     \<in> social (find_relevant_links lib_example [doc_social] (Some 0) ''https://example.com'')
   \<and> urlparse lib_example ''https://facewww.book.com/acme''
       = Some (''facewww.book.com'', ''/acme'')
   \<and> \<not> list_ex (\<lambda>d. str_in d (strip_leading_www ''facewww.book.com'')) SOCIAL_DOMAINS"
  by code_simp

section \<open>Properties of content extraction\<close>

lemma strip_replicate: "\<not> isspace c \<Longrightarrow> strip (replicate n c) = replicate n c"
  by (cases n) (simp_all add: strip_def replicate_append_same [symmetric] del: replicate_Suc)

lemma split_ws_acc_replicate:
  "\<not> isspace c \<Longrightarrow>
     split_ws_acc cur (replicate n c)
       = (if cur @ replicate n c = [] then [] else [cur @ replicate n c])"
  by (induction n arbitrary: cur) (auto simp: replicate_append_same)

lemma collapse_replicate:
  "\<not> isspace c \<Longrightarrow> collapse_whitespace (replicate n c) = replicate n c"
  by (simp add: collapse_whitespace_def split_ws_def split_ws_acc_replicate)

lemma get_text_single:
  "string_containers n = None \<Longrightarrow> get_text_sep_strip (Tag n a [NavigableString s]) = strip s"
  by (simp add: get_text_sep_strip_def)

lemma get_text_script:
  "get_text_sep_strip (Tag ''script'' a [OtherString Script s]) = strip s"
  by (simp add: get_text_sep_strip_def string_containers_def)

lemma strip_nbsp_replicate:
  "\<not> isspace c \<Longrightarrow> strip (CHR 0xA0 # replicate n c) = replicate n c"
  by (cases n) (simp_all add: strip_def isspace_def replicate_append_same [symmetric]
      del: replicate_Suc)

lemma script_content_qualifies: "qualifies doc_script_content (ById ''content'')"
  by (simp add: qualifies_def doc_script_content_def page_def select_one_def select_def
      get_text_script strip_replicate isspace_def)

lemma main_nbsp_not_qualifies: "\<not> qualifies doc_main_nbsp (ByTag ''main'')"
  by (simp add: qualifies_def doc_main_nbsp_def page_def select_one_def select_def
      get_text_single string_containers_def strip_nbsp_replicate isspace_def)

lemma selector_tier_first:
  assumes "\<forall>s \<in> set pre. \<not> qualifies doc s"
    and "select_one sel doc = Some e"
    and "200 < length (get_text_sep_strip e)"
  shows "selector_tier doc (pre @ sel # post) = Some (get_text_sep_strip e)"
  using assms
  by (induction pre) (auto simp: qualifies_def Let_def split: option.splits)

lemma selector_tier_None:
  "selector_tier doc sels = None \<longleftrightarrow> (\<forall>s \<in> set sels. \<not> qualifies doc s)"
  by (induction sels) (auto simp: qualifies_def Let_def split: option.splits)

lemma selector_tier_Some_long:
  "selector_tier doc sels = Some t \<Longrightarrow> 200 < length t"
  by (induction sels) (auto simp: Let_def split: option.splits if_splits)

lemma decompose_noise_length: "length (foldl (decompose_noise bc) h sels) = length h"
  by (induction sels arbitrary: h) (simp_all add: decompose_noise_def)

lemma decompose_noise_other:
  "r \<noteq> bc \<Longrightarrow> foldl (decompose_noise bc) h sels ! r = h ! r"
  by (induction sels arbitrary: h) (simp_all add: decompose_noise_def)

lemma decompose_noise_copy:
  "bc < length h \<Longrightarrow>
     foldl (decompose_noise bc) h sels ! bc = foldl (\<lambda>t s. decompose_all s t) (h ! bc) sels"
  by (induction sels arbitrary: h) (simp_all add: decompose_noise_def)

lemma fallback_tier_eq:
  "fallback_tier h r =
     (case find_tag ''body'' (h ! r) of
        None \<Rightarrow> (None, h)
      | Some body \<Rightarrow> (Some (get_text_sep_strip (cleaned body)),
                       foldl (decompose_noise (length h)) (h @ [body]) noise_selectors))"
  by (simp add: fallback_tier_def alloc_def Let_def cleaned_def decompose_noise_copy
      split: option.splits)

lemma fallback_tier_frame:
  "r' < length h \<Longrightarrow> snd (fallback_tier h r) ! r' = h ! r'"
  by (simp add: fallback_tier_eq decompose_noise_other nth_append split: option.splits)

lemma snd_extract_relevant_text:
  "snd (extract_relevant_text h (Some r)) =
     (if truthy (selector_tier (h ! r) selectors) then h else snd (fallback_tier h r))"
  by (simp add: extract_relevant_text_def Let_def split_beta split: option.splits)

lemma fst_extract_relevant_text:
  "fst (extract_relevant_text h (Some r)) =
     (case (if truthy (selector_tier (h ! r) selectors) then selector_tier (h ! r) selectors
            else fst (fallback_tier h r)) of
        None \<Rightarrow> None
      | Some t \<Rightarrow> if t \<noteq> [] then Some (collapse_whitespace t) else None)"
  by (simp add: extract_relevant_text_def Let_def split_beta split: option.splits)

lemma extract_relevant_text_frame:
  "r' < length h \<Longrightarrow> snd (extract_relevant_text h soup) ! r' = h ! r'"
  by (cases soup) (simp_all add: snd_extract_relevant_text fallback_tier_frame,
      simp add: extract_relevant_text_def)

lemma extract_emails_cong:
  "h' ! r = h ! r \<Longrightarrow> extract_emails h' (Some r) = extract_emails h (Some r)"
  by (simp add: extract_emails_def)

lemma truthy_selector_tier:
  "truthy (selector_tier doc sels) \<longleftrightarrow> selector_tier doc sels \<noteq> None"
  by (cases "selector_tier doc sels") (auto dest: selector_tier_Some_long)

lemma decompose_noise_append:
  "foldl (decompose_noise (length h)) (h @ [t]) sels
     = h @ [foldl (\<lambda>t s. decompose_all s t) t sels]"
  by (induction sels arbitrary: t) (simp_all add: decompose_noise_def)

lemma extract_relevant_text_fallback:
  assumes "selector_tier (h ! r) selectors = None"
    and "find_tag ''body'' (h ! r) = Some body"
  shows "extract_relevant_text h (Some r) =
     (if get_text_sep_strip (cleaned body) \<noteq> []
      then Some (collapse_whitespace (get_text_sep_strip (cleaned body))) else None,
      h @ [cleaned body])"
  using assms
  by (simp add: extract_relevant_text_def fallback_tier_eq decompose_noise_append cleaned_def)

lemma extract_emails_at: "extract_emails h (Some r) = extract_emails [h ! r] (Some 0)"
  by (simp add: extract_emails_def)

lemma footer_text:
  "extract_relevant_text [doc_footer_mail] (Some 0) =
     (Some ''We build things.'',
      [doc_footer_mail, Tag ''body'' [] [Tag ''p'' [] [NavigableString ''We build things.'']]])"
proof -
  have 1: "selector_tier ([doc_footer_mail] ! 0) selectors = None" by code_simp
  have 2: "find_tag ''body'' ([doc_footer_mail] ! 0) =
      Some (Tag ''body'' [] [Tag ''p'' [] [NavigableString ''We build things.''],
           Tag ''footer'' []
             [NavigableString ''write to office@example.org'',
              anchor ''mailto:jobs@example.org'' ''Jobs'']])"
    by code_simp
  have 3: "cleaned (Tag ''body'' [] [Tag ''p'' [] [NavigableString ''We build things.''],
           Tag ''footer'' []
             [NavigableString ''write to office@example.org'',
              anchor ''mailto:jobs@example.org'' ''Jobs'']])
       = Tag ''body'' [] [Tag ''p'' [] [NavigableString ''We build things.'']]"
    by code_simp
  have 4: "get_text_sep_strip (Tag ''body'' [] [Tag ''p'' [] [NavigableString ''We build things.'']])
       = ''We build things.''"
    by code_simp
  have 5: "collapse_whitespace ''We build things.'' = ''We build things.''"
    by code_simp
  show ?thesis
    by (simp add: extract_relevant_text_fallback [OF 1 2] 3 4 5)
qed

text \<open>
  C6 (as amended). For a document that is present, no text is returned exactly when no
  selector qualifies and either the document has no \<open>body\<close> or the text of the body,
  once the noise elements are removed, is empty. So whenever a body exists and its
  cleaned text is not empty, or a selector qualifies, a text is returned.
\<close>

theorem extract_text_absent_iff:
  "fst (extract_relevant_text h (Some r)) = None \<longleftrightarrow>
     (\<forall>s \<in> set selectors. \<not> qualifies (h ! r) s)
     \<and> (case find_tag ''body'' (h ! r) of
          None \<Rightarrow> True
        | Some body \<Rightarrow> get_text_sep_strip (cleaned body) = [])"
  by (auto simp: fst_extract_relevant_text truthy_selector_tier selector_tier_None
      fallback_tier_eq split: option.splits dest: selector_tier_Some_long)

theorem extract_text_absent_iff_witness:
  "fst (extract_relevant_text [doc_no_body] (Some 0)) = None
   \<and> fst (extract_relevant_text [doc_nbsp] (Some 0)) = None
   \<and> fst (extract_relevant_text [doc_footer_mail] (Some 0)) \<noteq> None
   \<and> fst (extract_relevant_text [doc_script_content] (Some 0)) \<noteq> None"
proof -
  have 1: "fst (extract_relevant_text [doc_no_body] (Some 0)) = None"
    by (subst extract_text_absent_iff) code_simp
  have 2: "fst (extract_relevant_text [doc_nbsp] (Some 0)) = None"
    by (subst extract_text_absent_iff) code_simp
  have 3: "fst (extract_relevant_text [doc_footer_mail] (Some 0)) \<noteq> None"
    by (subst extract_text_absent_iff) code_simp
  have "ById ''content'' \<in> set selectors"
    by (simp add: selectors_def)
  with script_content_qualifies
  have 4: "fst (extract_relevant_text [doc_script_content] (Some 0)) \<noteq> None"
    by (subst extract_text_absent_iff) auto
  from 1 2 3 4 show ?thesis by simp
qed

text \<open>
  The claim as first stated fails for a body that holds only a navigation bar: the
  body exists, its cleaned text is empty, and the test \<open>if text\<close> of line 152 returns
  \<open>None\<close>.
\<close>

theorem absent_with_body_counterexample:
  "find_tag ''body'' doc_nav_only
     = Some (Tag ''body'' [] [Tag ''nav'' [] [anchor ''/'' ''Home'']])
   \<and> fst (extract_relevant_text [doc_nav_only] (Some 0)) = None"
proof -
  have 1: "selector_tier ([doc_nav_only] ! 0) selectors = None" by code_simp
  have 2: "find_tag ''body'' doc_nav_only
     = Some (Tag ''body'' [] [Tag ''nav'' [] [anchor ''/'' ''Home'']])"
    by code_simp
  have 3: "get_text_sep_strip (cleaned (Tag ''body'' [] [Tag ''nav'' [] [anchor ''/'' ''Home'']]))
     = []"
    by code_simp
  from 2 have 4: "find_tag ''body'' ([doc_nav_only] ! 0)
     = Some (Tag ''body'' [] [Tag ''nav'' [] [anchor ''/'' ''Home'']])"
    by simp
  show ?thesis
    by (simp add: extract_relevant_text_fallback [OF 1 4] 2 3)
qed

text \<open>
  C7. Let a selector of the fixed list match a region whose text has more than 200
  characters, and let no selector before it in the list qualify. Then the loop over the
  selectors returns the text of that region, whatever the selectors after it match, and
  \<open>extract_relevant_text\<close> returns this text with its whitespace collapsed and leaves
  the store as it was.
\<close>

theorem selector_tier_first_qualifying:
  assumes "selectors = pre @ sel # post"
    and "\<forall>s \<in> set pre. \<not> qualifies (h ! r) s"
    and "select_one sel (h ! r) = Some e"
    and "200 < length (get_text_sep_strip e)"
  shows "selector_tier (h ! r) selectors = Some (get_text_sep_strip e)
     \<and> extract_relevant_text h (Some r)
         = (Some (collapse_whitespace (get_text_sep_strip e)), h)"
proof -
  have st: "selector_tier (h ! r) selectors = Some (get_text_sep_strip e)"
    unfolding assms(1) using assms(2-4) by (rule selector_tier_first)
  moreover have "get_text_sep_strip e \<noteq> []" using assms(4) by auto
  ultimately show ?thesis
    by (simp add: extract_relevant_text_def Let_def)
qed

theorem selector_tier_first_qualifying_witness:
  "extract_relevant_text [doc_main_article] (Some 0)
     = (Some (replicate 250 CHR ''m''), [doc_main_article])
   \<and> map_option (\<lambda>e. length (get_text_sep_strip e))
        (select_one (ByTag ''article'') doc_main_article) = Some 500
   \<and> extract_relevant_text [doc_main_nbsp] (Some 0)
     = (Some (replicate 500 CHR ''a''), [doc_main_nbsp])
   \<and> extract_relevant_text [doc_script_content] (Some 0)
     = (Some (replicate 201 CHR ''x''), [doc_script_content])"
proof -
  have s: "selectors = [] @ ByTag ''main'' # tl selectors"
    by (simp add: selectors_def)
  have e: "select_one (ByTag ''main'') ([doc_main_article] ! 0)
      = Some (Tag ''main'' [] [NavigableString (replicate 250 CHR ''m'')])"
    by (simp add: doc_main_article_def page_def select_one_def select_def)
  have t: "get_text_sep_strip (Tag ''main'' [] [NavigableString (replicate 250 CHR ''m'')])
      = replicate 250 CHR ''m''"
    by (simp add: get_text_single string_containers_def strip_replicate isspace_def)
  have l: "200 < length (get_text_sep_strip
      (Tag ''main'' [] [NavigableString (replicate 250 CHR ''m'')]))"
    by (simp add: t)
  have c: "collapse_whitespace (replicate 250 CHR ''m'') = replicate 250 CHR ''m''"
    by (simp add: collapse_replicate isspace_def)
  have a: "select_one (ByTag ''article'') doc_main_article
      = Some (Tag ''article'' [] [NavigableString (replicate 500 CHR ''a'')])"
    by (simp add: doc_main_article_def page_def select_one_def select_def)
  have b: "map_option (\<lambda>e. length (get_text_sep_strip e))
        (select_one (ByTag ''article'') doc_main_article) = Some 500"
    by (simp add: a get_text_single string_containers_def strip_replicate isspace_def)
  from selector_tier_first_qualifying [OF s _ e l] t c
  have 1: "extract_relevant_text [doc_main_article] (Some 0)
     = (Some (replicate 250 CHR ''m''), [doc_main_article])"
    by simp
  have s2: "selectors = [ByTag ''main''] @ ByTag ''article'' # tl (tl selectors)"
    by (simp add: selectors_def)
  have p2: "\<forall>s \<in> set [ByTag ''main'']. \<not> qualifies ([doc_main_nbsp] ! 0) s"
    using main_nbsp_not_qualifies by simp
  have e2: "select_one (ByTag ''article'') ([doc_main_nbsp] ! 0)
      = Some (Tag ''article'' [] [NavigableString (replicate 500 CHR ''a'')])"
    by (simp add: doc_main_nbsp_def page_def select_one_def select_def)
  have t2: "get_text_sep_strip (Tag ''article'' [] [NavigableString (replicate 500 CHR ''a'')])
      = replicate 500 CHR ''a''"
    by (simp add: get_text_single string_containers_def strip_replicate isspace_def)
  have l2: "200 < length (get_text_sep_strip
      (Tag ''article'' [] [NavigableString (replicate 500 CHR ''a'')]))"
    by (simp add: t2)
  have c2: "collapse_whitespace (replicate 500 CHR ''a'') = replicate 500 CHR ''a''"
    by (simp add: collapse_replicate isspace_def)
  from selector_tier_first_qualifying [OF s2 p2 e2 l2] t2 c2
  have 2: "extract_relevant_text [doc_main_nbsp] (Some 0)
     = (Some (replicate 500 CHR ''a''), [doc_main_nbsp])"
    by simp
  have s3: "selectors = butlast selectors @ ById ''content'' # []"
    by (simp add: selectors_def)
  have p3: "\<forall>s \<in> set (butlast selectors). \<not> qualifies ([doc_script_content] ! 0) s"
    by (simp add: selectors_def qualifies_def doc_script_content_def page_def select_one_def
        select_def)
  have e3: "select_one (ById ''content'') ([doc_script_content] ! 0)
      = Some (Tag ''script'' [(''id'', ''content'')]
          [OtherString Script (replicate 201 CHR ''x'')])"
    by (simp add: doc_script_content_def page_def select_one_def select_def)
  have t3: "get_text_sep_strip (Tag ''script'' [(''id'', ''content'')]
          [OtherString Script (replicate 201 CHR ''x'')]) = replicate 201 CHR ''x''"
    by (simp add: get_text_script strip_replicate isspace_def)
  have l3: "200 < length (get_text_sep_strip (Tag ''script'' [(''id'', ''content'')]
          [OtherString Script (replicate 201 CHR ''x'')]))"
    by (simp add: t3)
  have c3: "collapse_whitespace (replicate 201 CHR ''x'') = replicate 201 CHR ''x''"
    by (simp add: collapse_replicate isspace_def)
  from selector_tier_first_qualifying [OF s3 p3 e3 l3] t3 c3
  have 3: "extract_relevant_text [doc_script_content] (Some 0)
     = (Some (replicate 201 CHR ''x''), [doc_script_content])"
    by simp
  from 1 b 2 3 show ?thesis by simp
qed

lemma parse_html_ref:
  "parse_html w h resp = (Some r, h1) \<Longrightarrow> r < length h1 \<and> r = length h"
  by (auto simp: parse_html_def alloc_def split: option.splits)

lemma about_page_emails:
  "emails (fst (about_page w h results about_url)) =
     emails results \<union>
     (case about_url of
        None \<Rightarrow> {}
      | Some u \<Rightarrow>
          if u = [] then {}
          else extract_emails (snd (parse_html w h (fetch_page w u)))
                 (fst (parse_html w h (fetch_page w u))))"
proof (cases about_url)
  case None
  then show ?thesis by (simp add: about_page_def)
next
  case (Some u)
  show ?thesis
  proof (cases "u = []")
    case True
    with Some show ?thesis by (simp add: about_page_def)
  next
    case False
    obtain s h1 where p: "parse_html w h (fetch_page w u) = (s, h1)"
      by (cases "parse_html w h (fetch_page w u)")
    show ?thesis
    proof (cases s)
      case None
      with Some False p show ?thesis
        by (simp add: about_page_def extract_emails_def)
    next
      case (Some r)
      with p have "r < length h1" using parse_html_ref by blast
      then have "extract_emails (snd (extract_relevant_text h1 (Some r))) (Some r)
          = extract_emails h1 (Some r)"
        by (intro extract_emails_cong extract_relevant_text_frame)
      with \<open>about_url = Some u\<close> False p Some show ?thesis
        by (simp add: about_page_def Let_def split_beta split: option.splits)
    qed
  qed
qed

text \<open>
  C9. Content extraction leaves every tree that is in the store when it starts as it
  was: the noise elements are removed from a tree at a new reference. So emails and
  links extracted from a document after content extraction are those extracted before
  it, and the emails the orchestrator adds for the About page, which it extracts after
  the text, are the emails of the page as it was parsed.
\<close>

theorem content_extraction_frame:
  "(r < length h \<longrightarrow>
      snd (extract_relevant_text h soup) ! r = h ! r
      \<and> extract_emails (snd (extract_relevant_text h (Some r))) (Some r)
          = extract_emails h (Some r)
      \<and> find_relevant_links lib (snd (extract_relevant_text h (Some r))) (Some r) b
          = find_relevant_links lib h (Some r) b)
   \<and> emails (fst (about_page w h results about_url)) =
       emails results \<union>
       (case about_url of
          None \<Rightarrow> {}
        | Some u \<Rightarrow>
            if u = [] then {}
            else extract_emails (snd (parse_html w h (fetch_page w u)))
                   (fst (parse_html w h (fetch_page w u))))"
  by (simp add: extract_relevant_text_frame extract_emails_def find_relevant_links_def
      about_page_emails)

theorem content_extraction_frame_witness:
  "extract_emails (snd (extract_relevant_text [doc_footer_mail] (Some 0))) (Some 0)
     = {''office@example.org'', ''jobs@example.org''}
   \<and> extract_emails [doc_footer_mail] (Some 0) = {''office@example.org'', ''jobs@example.org''}
   \<and> extract_emails (snd (extract_relevant_text [doc_footer_mail] (Some 0))) (Some 1) = {}"
proof -
  have l: "0 < length [doc_footer_mail]" by simp
  have e: "extract_emails [doc_footer_mail] (Some 0)
      = {''office@example.org'', ''jobs@example.org''}"
    by code_simp
  have "extract_emails [Tag ''body'' [] [Tag ''p'' [] [NavigableString ''We build things.'']]]
      (Some 0) = {}"
    by code_simp
  then have c: "extract_emails (snd (extract_relevant_text [doc_footer_mail] (Some 0))) (Some 1)
      = {}"
    by (subst extract_emails_at) (simp add: footer_text)
  from content_extraction_frame [of 0 "[doc_footer_mail]" "Some 0"] l
  have "extract_emails (snd (extract_relevant_text [doc_footer_mail] (Some 0))) (Some 0)
      = extract_emails [doc_footer_mail] (Some 0)"
    by blast
  with e c show ?thesis by simp
qed

section \<open>Properties of the orchestrator\<close>

lemma about_page_inv:
  assumes "about_text results = None" "about_summary results = None"
  shows "summary_inv w (fst (about_page w h results about_url))"
  using assms
  by (auto simp: about_page_def summary_inv_def Let_def split_beta split: option.splits)

lemma contact_page_keeps:
  "about_text (fst (contact_page w h results u)) = about_text results
   \<and> about_summary (fst (contact_page w h results u)) = about_summary results"
  by (auto simp: contact_page_def Let_def split_beta split: option.splits)

lemma run_scraping_only_inv: "summary_inv w (run_scraping_only w target_url)"
proof -
  have "summary_inv w (res\<lparr>processing_time := t\<rparr>) = summary_inv w res" for res t
    by (simp add: summary_inv_def)
  moreover have "summary_inv w (fst (contact_page w h res u)) = summary_inv w res" for h res u
    using contact_page_keeps [of w h res u] by (simp add: summary_inv_def)
  ultimately show ?thesis
    by (auto simp: run_scraping_only_def Let_def split_beta about_page_inv
        split: option.splits)
      (simp add: summary_inv_def)
qed

lemma summarize_text_Some:
  "summarize_text key gen t \<noteq> None \<Longrightarrow> \<not> truthy key \<or> 75 \<le> length t"
  by (auto simp: summarize_text_def split: if_splits)

lemma summarize_text_short:
  "truthy key \<Longrightarrow> length t < 75 \<Longrightarrow> summarize_text key gen t = None"
  by (auto simp: summarize_text_def)

lemma run_scraping_only_about:
  assumes "requests_get w u = Fetched resp"
    and "BeautifulSoup w (content resp) = Some home"
    and "about (find_relevant_links (urllib_parse w) [home] (Some 0) u) = Some a"
    and "a \<noteq> []"
    and "requests_get w a = Fetched aresp"
    and "BeautifulSoup w (content aresp) = Some adoc"
    and "fst (extract_relevant_text [home, adoc] (Some 1)) = Some t"
    and "t \<noteq> []"
  shows "about_text (run_scraping_only w u) = Some t
     \<and> about_summary (run_scraping_only w u)
         = summarize_text (GOOGLE_API_KEY w) (generate_content w) t"
  using assms contact_page_keeps
  by (simp add: run_scraping_only_def about_page_def fetch_page_def parse_html_def alloc_def
      Let_def split_beta)

lemma site_home:
  "requests_get (env_site key t clock) ''https://example.com''
     = Fetched \<lparr>final_url = ''https://example.com/'', content = home_html\<rparr>
   \<and> BeautifulSoup (env_site key t clock)
        (content \<lparr>final_url = ''https://example.com/'', content = home_html\<rparr>) = Some home_doc
   \<and> urllib_parse (env_site key t clock) = lib_example
   \<and> GOOGLE_API_KEY (env_site key t clock) = key"
  by (simp add: env_site_def)

lemma site_about:
  "requests_get (env_site key t clock) ''https://example.com/about''
     = Fetched \<lparr>final_url = ''https://example.com/about'', content = about_html t\<rparr>
   \<and> BeautifulSoup (env_site key t clock)
        (content \<lparr>final_url = ''https://example.com/about'', content = about_html t\<rparr>)
       = Some (about_doc t)"
  by (simp add: env_site_def about_html_def home_html_def)

lemma home_about_link:
  "about (find_relevant_links lib_example [home_doc] (Some 0) ''https://example.com'')
     = Some ''https://example.com/about''"
  by code_simp

lemma about_doc_text:
  assumes "strip t = t" and "collapse_whitespace t = t" and "t \<noteq> []"
  shows "fst (extract_relevant_text [home, about_doc t] (Some 1)) = Some t"
proof -
  have 1: "selector_tier ([home, about_doc t] ! 1) selectors = None"
    by (simp add: about_doc_def page_def selectors_def select_one_def select_def)
  have 2: "find_tag ''body'' ([home, about_doc t] ! 1)
      = Some (Tag ''body'' [] [Tag ''p'' [] [NavigableString t]])"
    by (simp add: about_doc_def page_def find_tag_def select_one_def select_def)
  have 3: "cleaned (Tag ''body'' [] [Tag ''p'' [] [NavigableString t]])
      = Tag ''body'' [] [Tag ''p'' [] [NavigableString t]]"
    by (simp add: cleaned_def noise_selectors_def)
  have 4: "get_text_sep_strip (Tag ''body'' [] [Tag ''p'' [] [NavigableString t]]) = t"
    using assms(1,3) by (simp add: get_text_sep_strip_def string_containers_def)
  show ?thesis
    by (subst extract_relevant_text_fallback [OF 1 2]) (simp add: 3 4 assms)
qed

lemma text60_plain: "strip text60 = text60 \<and> collapse_whitespace text60 = text60
    \<and> text60 \<noteq> [] \<and> length text60 = 60"
  by code_simp

lemma text75_plain: "strip text75 = text75 \<and> collapse_whitespace text75 = text75
    \<and> text75 \<noteq> [] \<and> length text75 = 75"
  by code_simp

lemma site_run:
  assumes "strip t = t" and "collapse_whitespace t = t" and "t \<noteq> []"
  shows "about_text (run_scraping_only (env_site key t clock) ''https://example.com'') = Some t
     \<and> about_summary (run_scraping_only (env_site key t clock) ''https://example.com'')
         = summarize_text key (\<lambda>p. Parts ''Acme makes tools for bicycle repair.'') t"
proof -
  note h = site_home [of key t clock] and a = site_about [of key t clock]
  have g: "generate_content (env_site key t clock)
      = (\<lambda>p. Parts ''Acme makes tools for bicycle repair.'')"
    by (simp add: env_site_def)
  have l: "about (find_relevant_links (urllib_parse (env_site key t clock)) [home_doc] (Some 0)
      ''https://example.com'') = Some ''https://example.com/about''"
    using h home_about_link by simp
  from run_scraping_only_about [OF h [THEN conjunct1] h [THEN conjunct2, THEN conjunct1] l _
      a [THEN conjunct1] a [THEN conjunct2] about_doc_text [OF assms] assms(3)]
  show ?thesis using h g by simp
qed

text \<open>
  C3 (as amended). In every result, a summary is present only if the About text is
  present and not empty, and either \<open>GOOGLE_API_KEY\<close> is not set or the text has at
  least 75 characters. When the key is not set and the About text is present and not
  empty, the summary is the error marker of the summarizer, whatever the length of the
  text. When the key is set and the About text has fewer than 75 characters, 60 for
  one, the text is set and the summary stays absent.
\<close>

theorem about_summary_only_if:
  "(about_summary (run_scraping_only w target_url) \<noteq> None \<longrightarrow>
      (\<exists>t. about_text (run_scraping_only w target_url) = Some t \<and> t \<noteq> []
         \<and> (\<not> truthy (GOOGLE_API_KEY w) \<or> 75 \<le> length t)))
   \<and> (\<forall>t. \<not> truthy (GOOGLE_API_KEY w)
          \<and> about_text (run_scraping_only w target_url) = Some t \<and> t \<noteq> []
        \<longrightarrow> about_summary (run_scraping_only w target_url)
              = Some ''API Key Error: GOOGLE_API_KEY not set.'')
   \<and> (\<forall>t. truthy (GOOGLE_API_KEY w)
          \<and> about_text (run_scraping_only w target_url) = Some t \<and> length t < 75
        \<longrightarrow> about_summary (run_scraping_only w target_url) = None)"
proof (intro conjI impI allI)
  note inv = run_scraping_only_inv [of w target_url]
  assume ne: "about_summary (run_scraping_only w target_url) \<noteq> None"
  with inv obtain t where t: "about_text (run_scraping_only w target_url) = Some t" "t \<noteq> []"
    and s: "about_summary (run_scraping_only w target_url)
            = summarize_text (GOOGLE_API_KEY w) (generate_content w) t"
    by (auto simp: summary_inv_def split: option.splits if_splits)
  from ne s have "\<not> truthy (GOOGLE_API_KEY w) \<or> 75 \<le> length t"
    using summarize_text_Some by metis
  with t show "\<exists>t. about_text (run_scraping_only w target_url) = Some t \<and> t \<noteq> []
         \<and> (\<not> truthy (GOOGLE_API_KEY w) \<or> 75 \<le> length t)"
    by blast
next
  fix t
  assume "\<not> truthy (GOOGLE_API_KEY w)
          \<and> about_text (run_scraping_only w target_url) = Some t \<and> t \<noteq> []"
  then show "about_summary (run_scraping_only w target_url)
              = Some ''API Key Error: GOOGLE_API_KEY not set.''"
    using run_scraping_only_inv [of w target_url]
    by (simp add: summary_inv_def summarize_text_def)
next
  fix t
  assume "truthy (GOOGLE_API_KEY w)
          \<and> about_text (run_scraping_only w target_url) = Some t \<and> length t < 75"
  then show "about_summary (run_scraping_only w target_url) = None"
    using run_scraping_only_inv [of w target_url]
    by (simp add: summary_inv_def summarize_text_short)
qed

theorem about_summary_only_if_witness:
  "about_text (run_scraping_only (env_site (Some ''key'') text60 real) ''https://example.com'')
     = Some text60
   \<and> length text60 = 60
   \<and> about_summary (run_scraping_only (env_site (Some ''key'') text60 real)
        ''https://example.com'') = None"
proof -
  have k: "truthy (GOOGLE_API_KEY (env_site (Some ''key'') text60 real))"
    by (simp add: env_site_def)
  have t: "about_text (run_scraping_only (env_site (Some ''key'') text60 real)
      ''https://example.com'') = Some text60"
    using site_run [of text60 "Some ''key''" real] text60_plain by simp
  have l: "length text60 = 60"
    using text60_plain by simp
  from about_summary_only_if [of "env_site (Some ''key'') text60 real" "''https://example.com''"]
    k t l
  have "about_summary (run_scraping_only (env_site (Some ''key'') text60 real)
        ''https://example.com'') = None"
    by simp
  with t l show ?thesis by simp
qed

text \<open>
  The claim as first stated fails in two places. Without the API key the summarizer
  answers with its error marker before it looks at the length (line 161 comes before
  line 162), so a text of 60 characters gets a summary that is not absent. And a text
  of exactly 75 characters, which does not exceed 75, is summarized: line 162 returns
  \<open>None\<close> below 75 only.
\<close>

theorem about_summary_counterexample:
  "about_text (run_scraping_only (env_site None text60 real) ''https://example.com'')
     = Some text60
   \<and> length text60 = 60
   \<and> about_summary (run_scraping_only (env_site None text60 real) ''https://example.com'')
       = Some ''API Key Error: GOOGLE_API_KEY not set.''
   \<and> about_text (run_scraping_only (env_site (Some ''key'') text75 real) ''https://example.com'')
       = Some text75
   \<and> length text75 = 75
   \<and> about_summary (run_scraping_only (env_site (Some ''key'') text75 real)
        ''https://example.com'') = Some ''Acme makes tools for bicycle repair.''"
proof -
  have s: "strip ''Acme makes tools for bicycle repair.'' = ''Acme makes tools for bicycle repair.''"
    by code_simp
  show ?thesis
    using site_run [of text60 None real] site_run [of text75 "Some ''key''" real]
      text60_plain text75_plain s
    by (simp add: summarize_text_def)
qed

text \<open>
  C8 (as amended). When the fetch of the home page fails, or the fetched content does
  not parse, the orchestrator returns a result with the title \<open>N/A\<close>, no emails, no
  social links, no About text and no summary; its processing time is the second reading
  of the clock minus the first.
\<close>

theorem homepage_failure_result:
  assumes "\<forall>resp. requests_get w target_url = Fetched resp
             \<longrightarrow> BeautifulSoup w (content resp) = None"
  shows "run_scraping_only w target_url =
     \<lparr>url = target_url, title = ''N/A'', emails = {}, social_links = {},
      about_text = None, about_summary = None, technologies = {},
      processing_time = time_time w 1 - time_time w 0\<rparr>"
  using assms
  by (auto simp: run_scraping_only_def Let_def split_beta fetch_page_def parse_html_def
      split: option.splits fetch_result.splits)

theorem homepage_failure_result_witness:
  "run_scraping_only (env_site None text60 real) ''https://nowhere.example'' =
     \<lparr>url = ''https://nowhere.example'', title = ''N/A'', emails = {}, social_links = {},
      about_text = None, about_summary = None, technologies = {}, processing_time = 1\<rparr>
   \<and> requests_get (env_site None text60 real) ''https://nowhere.example'' = RequestException
   \<and> run_scraping_only ((env_site None text60 real)\<lparr>BeautifulSoup := \<lambda>c. None\<rparr>)
        ''https://example.com'' =
     \<lparr>url = ''https://example.com'', title = ''N/A'', emails = {}, social_links = {},
      about_text = None, about_summary = None, technologies = {}, processing_time = 1\<rparr>
   \<and> requests_get ((env_site None text60 real)\<lparr>BeautifulSoup := \<lambda>c. None\<rparr>)
        ''https://example.com''
       = Fetched \<lparr>final_url = ''https://example.com/'', content = home_html\<rparr>"
proof -
  have f: "requests_get (env_site None text60 real) ''https://nowhere.example''
      = RequestException"
    by (simp add: env_site_def)
  then have "\<forall>resp. requests_get (env_site None text60 real) ''https://nowhere.example''
      = Fetched resp
      \<longrightarrow> BeautifulSoup (env_site None text60 real) (content resp) = None"
    by simp
  from homepage_failure_result [OF this]
  have 1: "run_scraping_only (env_site None text60 real) ''https://nowhere.example'' =
     \<lparr>url = ''https://nowhere.example'', title = ''N/A'', emails = {}, social_links = {},
      about_text = None, about_summary = None, technologies = {}, processing_time = 1\<rparr>"
    by (simp add: env_site_def)
  have g: "requests_get ((env_site None text60 real)\<lparr>BeautifulSoup := \<lambda>c. None\<rparr>)
        ''https://example.com''
       = Fetched \<lparr>final_url = ''https://example.com/'', content = home_html\<rparr>"
    by (simp add: env_site_def)
  have "\<forall>resp. requests_get ((env_site None text60 real)\<lparr>BeautifulSoup := \<lambda>c. None\<rparr>)
        ''https://example.com'' = Fetched resp
      \<longrightarrow> BeautifulSoup ((env_site None text60 real)\<lparr>BeautifulSoup := \<lambda>c. None\<rparr>)
            (content resp) = None"
    by simp
  from homepage_failure_result [OF this]
  have 2: "run_scraping_only ((env_site None text60 real)\<lparr>BeautifulSoup := \<lambda>c. None\<rparr>)
        ''https://example.com'' =
     \<lparr>url = ''https://example.com'', title = ''N/A'', emails = {}, social_links = {},
      about_text = None, about_summary = None, technologies = {}, processing_time = 1\<rparr>"
    by (simp add: env_site_def)
  from 1 f 2 g show ?thesis by simp
qed

text \<open>
  The claim as first stated asks for a processing time above zero. \<open>time.time()\<close>
  may give the same reading twice; the processing time is then zero.
\<close>

theorem processing_time_counterexample:
  "requests_get (env_site None text60 (\<lambda>n. 0)) ''https://nowhere.example'' = RequestException
   \<and> processing_time (run_scraping_only (env_site None text60 (\<lambda>n. 0))
        ''https://nowhere.example'') = 0"
  by (simp add: env_site_def run_scraping_only_def fetch_page_def parse_html_def)

end
